theory Spec2Isabelle
  imports Complex_Main "HOL-Library.Multiset"
begin

section \<open>Value types shared by the four applications\<close>

text \<open>
  The models store amounts and quantities in \<^verbatim>\<open>DecimalField\<close>s, whose Python values are
  \<^verbatim>\<open>decimal.Decimal\<close>. A Decimal is a rational number with a finite decimal expansion;
  it is modelled by the rational it denotes. Sums, differences and products of field values
  stay far below the 28 significant digits of the default Decimal context, so they are exact
  in Python as they are here. Quotients are rounded by Python to 28 significant digits; the
  model keeps the exact quotient. The fixed scale that a column imposes when a row is
  written to the database is not part of the model either: the theorems below speak about
  the attribute values the methods assign.

  A \<^verbatim>\<open>DateTimeField\<close> holds a point in time with microsecond resolution; it is modelled
  by the number of microseconds since the epoch. Foreign keys are modelled by the related
  row where a method reads through them, and by the primary key otherwise.
\<close>

type_synonym decimal = rat
type_synonym datetime = int
type_synonym pk = nat

section \<open>erp.models\<close>

subsection \<open>Product\<close>

text \<open>
  The fields of \<^verbatim>\<open>Product\<close> that some modelled method reads. The record is extensible,
  so every statement about \<open>'a product_scheme\<close> holds for a row with all its columns.
\<close>

record product =
  product_number :: string
  product_name :: string
  sku :: "string option"
  price :: decimal
  cost :: decimal
  min_stock :: decimal
  max_stock :: decimal
  active :: bool

text \<open>
  \<^verbatim>\<open>
  @property
  def margin(self):
      if self.price > 0:
          return ((self.price - self.cost) / self.price) * 100
      return 0
  \<close>
\<close>

definition margin :: "'a product_scheme \<Rightarrow> decimal" where
  "margin p = (if price p > 0 then ((price p - cost p) / price p) * 100 else 0)"

subsection \<open>Order lines\<close>

text \<open>
  \<^verbatim>\<open>total_price\<close> is declared without a default and is not editable, so it is unset on an
  instance that has never been saved: the attribute is optional in the model. A table is
  a finite map from primary keys to rows; \<^verbatim>\<open>super().save()\<close> writes the instance under
  its primary key (the one it has, or the one the database hands out on insert).
\<close>

type_synonym 'r table = "pk \<rightharpoonup> 'r"

record purchase_order_line =
  pol_purchase_order :: pk
  pol_product :: pk
  pol_quantity :: decimal
  pol_unit_price :: decimal
  pol_total_price :: "decimal option"
  received_quantity :: decimal

record sales_order_line =
  sol_sales_order :: pk
  sol_product :: pk
  sol_quantity :: decimal
  sol_unit_price :: decimal
  sol_total_price :: "decimal option"
  shipped_quantity :: decimal

text \<open>
  \<^verbatim>\<open>
  def save(self, *args, **kwargs):
      self.total_price = self.quantity * self.unit_price
      super().save(*args, **kwargs)
  \<close>
  The same body in both classes. The result is the instance after the call and the table
  after the write.
\<close>

definition PurchaseOrderLine_save ::
  "pk \<Rightarrow> purchase_order_line \<Rightarrow> purchase_order_line table
     \<Rightarrow> purchase_order_line \<times> purchase_order_line table" where
  "PurchaseOrderLine_save key self tbl =
     (let self' = self\<lparr>pol_total_price := Some (pol_quantity self * pol_unit_price self)\<rparr>
      in (self', tbl(key \<mapsto> self')))"


section \<open>mrp.models\<close>

record material =
  material_code :: string
  material_name :: string
  unit_cost :: decimal

record bom_line =
  line_number :: int
  line_material :: "material option"
  line_component :: "product option"
  line_quantity :: decimal
  scrap_factor :: decimal

text \<open>A BOM with the rows of its reverse relation \<^verbatim>\<open>lines\<close>, as \<^verbatim>\<open>self.lines.all()\<close> yields them.\<close>

record bom =
  bom_number :: string
  bom_version :: string
  lines :: "bom_line list"

text \<open>
  \<^verbatim>\<open>
  @property
  def total_cost(self):
      total = Decimal(0)
      for line in self.lines.all():
          if line.material:
              total += line.quantity * line.material.unit_cost
          elif line.component:
              total += line.quantity * line.component.cost
      return total
  \<close>
  A model instance is always truthy, so \<^verbatim>\<open>if line.material\<close> tests the foreign key for
  \<^verbatim>\<open>None\<close>. The loop is a recursion over the lines with the running total \<open>tot\<close>.
\<close>

fun total_cost_loop :: "bom_line list \<Rightarrow> decimal \<Rightarrow> decimal" where
  "total_cost_loop [] tot = tot"
| "total_cost_loop (line # rest) tot =
     total_cost_loop rest
       (case line_material line of
          Some m \<Rightarrow> tot + line_quantity line * unit_cost m
        | None \<Rightarrow>
            (case line_component line of
               Some c \<Rightarrow> tot + line_quantity line * cost c
             | None \<Rightarrow> tot))"

definition total_cost :: "bom \<Rightarrow> decimal" where
  "total_cost self = total_cost_loop (lines self) 0"

text \<open>\<^verbatim>\<open>adjusted_quantity = quantity * (1 + scrap_factor / 100)\<close>, the only reader of the scrap factor.\<close>

definition adjusted_quantity :: "bom_line \<Rightarrow> decimal" where
  "adjusted_quantity self = line_quantity self * (1 + scrap_factor self / 100)"

text \<open>What the specification attributes to one line: material lines at the material's
  unit cost, component lines at the component's cost.\<close>

definition line_cost :: "bom_line \<Rightarrow> decimal" where
  "line_cost l =
     (case line_material l of
        Some m \<Rightarrow> line_quantity l * unit_cost m
      | None \<Rightarrow> (case line_component l of Some c \<Rightarrow> line_quantity l * cost c | None \<Rightarrow> 0))"

subsection \<open>Inventory\<close>

record inventory =
  inv_product :: "product option"
  inv_material :: "material option"
  warehouse :: string
  location :: "string option"
  quantity_on_hand :: decimal
  quantity_reserved :: decimal
  quantity_available :: decimal

text \<open>
  \<^verbatim>\<open>
  def save(self, *args, **kwargs):
      self.quantity_available = self.quantity_on_hand - self.quantity_reserved
      super().save(*args, **kwargs)
  \<close>
\<close>

definition Inventory_save ::
  "pk \<Rightarrow> inventory \<Rightarrow> inventory table \<Rightarrow> inventory \<times> inventory table" where
  "Inventory_save key self tbl =
     (let self' = self\<lparr>quantity_available := quantity_on_hand self - quantity_reserved self\<rparr>
      in (self', tbl(key \<mapsto> self')))"

text \<open>
  \<^verbatim>\<open>
  @property
  def is_low_stock(self):
      if self.product and self.product.min_stock:
          return self.quantity_available < self.product.min_stock
      return False
  \<close>
  \<^verbatim>\<open>self.product.min_stock\<close> is a Decimal in a condition: it is false exactly when it is zero.
\<close>

definition is_low_stock :: "inventory \<Rightarrow> bool" where
  "is_low_stock self =
     (case inv_product self of
        Some p \<Rightarrow> if min_stock p \<noteq> 0 then quantity_available self < min_stock p else False
      | None \<Rightarrow> False)"

section \<open>Requests and accounts\<close>

text \<open>
  What the code reads of a request: the account, its optional profile (\<^verbatim>\<open>hasattr(request.user,
  'profile')\<close> is false when the account has none), the profile's optional employee, and the
  request headers.
\<close>

record user_profile =
  profile_employee :: "pk option"
  profile_nfc_uid :: "string option"

record auth_user =
  user_pk :: pk
  username :: string
  is_authenticated :: bool
  is_active :: bool
  is_staff :: bool
  is_superuser :: bool
  user_permissions :: "string list"
  profile :: "user_profile option"

record request =
  req_user :: auth_user
  META :: "string \<rightharpoonup> string"

datatype error = DoesNotExist | LoginRequired | PermissionDenied

text \<open>
  Every console route is wrapped in \<^verbatim>\<open>self.admin_site.admin_view(...)\<close>, which runs the view only
  for an active staff account and sends everybody else to the login page.
\<close>

definition admin_view :: "request \<Rightarrow> (error + 'a) \<Rightarrow> error + 'a" where
  "admin_view request view =
     (if is_active (req_user request) \<and> is_staff (req_user request) then view
      else Inl LoginRequired)"

section \<open>mes.models\<close>

text \<open>
  All columns of \<^verbatim>\<open>WorkOrder\<close>. \<^verbatim>\<open>planned_start\<close> is a non-null column with a default, but
  \<^verbatim>\<open>efficiency\<close> tests it like the nullable ones, so the attribute is optional here too.
  \<^verbatim>\<open>updated_at\<close> is declared \<^verbatim>\<open>auto_now=True\<close>: every save overwrites it with the time of the save.
\<close>

record work_order =
  wo_number :: string
  wo_sales_order :: "pk option"
  wo_product :: pk
  wo_production_line :: "pk option"
  planned_quantity :: decimal
  produced_quantity :: decimal
  rejected_quantity :: decimal
  planned_start :: "datetime option"
  planned_end :: "datetime option"
  actual_start :: "datetime option"
  actual_end :: "datetime option"
  status :: string
  priority :: int
  wo_notes :: "string option"
  wo_created_by :: "pk option"
  wo_created_at :: datetime
  wo_updated_at :: datetime

record production_log =
  pl_work_order :: pk
  pl_operator :: "pk option"
  pl_shift :: "pk option"
  pl_action_type :: string
  pl_timestamp :: datetime
  pl_quantity :: decimal
  pl_rejects :: decimal
  pl_downtime_minutes :: decimal
  pl_downtime_reason :: "string option"
  pl_nfc_uid :: "string option"
  pl_notes :: "string option"

text \<open>\<^verbatim>\<open>timedelta.total_seconds()\<close>, on a difference given in microseconds.\<close>

definition total_seconds :: "int \<Rightarrow> rat" where
  "total_seconds td = of_int td / 1000000"

text \<open>
  \<^verbatim>\<open>
  @property
  def efficiency(self):
      if self.actual_start and self.actual_end and self.planned_end and self.planned_start:
          planned_duration = (self.planned_end - self.planned_start).total_seconds()
          actual_duration = (self.actual_end - self.actual_start).total_seconds()
          if actual_duration > 0:
              return (planned_duration / actual_duration) * 100
      return None
  \<close>
  A datetime is always truthy, so the first test is four tests for \<^verbatim>\<open>None\<close>. The Python
  values are floats; the model computes with the exact quotient.
\<close>

definition efficiency :: "work_order \<Rightarrow> rat option" where
  "efficiency self =
     (case actual_start self of
        None \<Rightarrow> None
      | Some a_start \<Rightarrow>
         (case actual_end self of
            None \<Rightarrow> None
          | Some a_end \<Rightarrow>
             (case planned_end self of
                None \<Rightarrow> None
              | Some p_end \<Rightarrow>
                 (case planned_start self of
                    None \<Rightarrow> None
                  | Some p_start \<Rightarrow>
                     (let planned_duration = total_seconds (p_end - p_start);
                          actual_duration = total_seconds (a_end - a_start)
                      in if actual_duration > 0
                         then Some ((planned_duration / actual_duration) * 100)
                         else None)))))"

section \<open>mes.admin: the work-order transitions\<close>

text \<open>
  The state the four transition views touch: the work-order table and the production log,
  the latter in insertion order. \<open>now n\<close> is the \<open>n\<close>-th reading of the clock during
  the request. (The audit entries that these writes trigger where the receivers of
  \<^verbatim>\<open>core.signals\<close> are alive go to the audit log, which is modelled further down.)
\<close>

record mes_db =
  work_orders :: "work_order table"
  production_logs :: "production_log list"

record response =
  message_level :: string
  message_text :: string
  redirect_to :: pk

text \<open>\<^verbatim>\<open>work_order.save()\<close>: the \<^verbatim>\<open>auto_now\<close> column takes the time of the save, then the row is written.\<close>

definition WorkOrder_save :: "datetime \<Rightarrow> pk \<Rightarrow> work_order \<Rightarrow> mes_db \<Rightarrow> work_order \<times> mes_db" where
  "WorkOrder_save t key self db =
     (let self' = self\<lparr>wo_updated_at := t\<rparr>
      in (self', db\<lparr>work_orders := (work_orders db)(key \<mapsto> self')\<rparr>))"

text \<open>
  \<^verbatim>\<open>ProductionLog.objects.create(work_order=..., operator=..., action_type=..., timestamp=...)\<close>:
  the other columns take their declared defaults.
\<close>

definition ProductionLog_create ::
  "pk \<Rightarrow> pk option \<Rightarrow> string \<Rightarrow> datetime \<Rightarrow> mes_db \<Rightarrow> mes_db" where
  "ProductionLog_create wo_key op action t db =
     db\<lparr>production_logs := production_logs db @
          [\<lparr>pl_work_order = wo_key, pl_operator = op, pl_shift = None, pl_action_type = action,
            pl_timestamp = t, pl_quantity = 0, pl_rejects = 0, pl_downtime_minutes = 0,
            pl_downtime_reason = None, pl_nfc_uid = None, pl_notes = None\<rparr>]\<rparr>"

text \<open>\<^verbatim>\<open>request.user.profile.employee if hasattr(request.user, 'profile') else None\<close>\<close>

definition request_operator :: "request \<Rightarrow> pk option" where
  "request_operator request =
     (case profile (req_user request) of Some pr \<Rightarrow> profile_employee pr | None \<Rightarrow> None)"

text \<open>
  \<^verbatim>\<open>
  def start_work_order(self, request, object_id):
      work_order = WorkOrder.objects.get(pk=object_id)
      work_order.status = 'in_progress'
      work_order.actual_start = timezone.now()
      work_order.save()
      ProductionLog.objects.create(work_order=work_order, operator=..., action_type='start',
                                   timestamp=timezone.now())
      messages.success(request, _(f'Work Order {work_order.wo_number} started.'))
      return redirect('admin:mes_workorder_change', object_id)
  \<close>
  \<^verbatim>\<open>objects.get\<close> raises \<^verbatim>\<open>DoesNotExist\<close> for an unknown key. The view does not read the status.
\<close>

definition start_work_order ::
  "(nat \<Rightarrow> datetime) \<Rightarrow> request \<Rightarrow> pk \<Rightarrow> mes_db \<Rightarrow> error + (mes_db \<times> response)" where
  "start_work_order now request object_id db =
     (case work_orders db object_id of
        None \<Rightarrow> Inl DoesNotExist
      | Some wo \<Rightarrow>
          (let work_order = wo\<lparr>status := ''in_progress'', actual_start := Some (now 0)\<rparr>;
               (work_order, db1) = WorkOrder_save (now 1) object_id work_order db;
               db2 = ProductionLog_create object_id (request_operator request) ''start'' (now 2) db1
           in Inr (db2, \<lparr>message_level = ''success'',
                         message_text = ''Work Order '' @ wo_number work_order @ '' started.'',
                         redirect_to = object_id\<rparr>)))"

definition stop_work_order ::
  "(nat \<Rightarrow> datetime) \<Rightarrow> request \<Rightarrow> pk \<Rightarrow> mes_db \<Rightarrow> error + (mes_db \<times> response)" where
  "stop_work_order now request object_id db =
     (case work_orders db object_id of
        None \<Rightarrow> Inl DoesNotExist
      | Some wo \<Rightarrow>
          (let work_order = wo\<lparr>status := ''completed'', actual_end := Some (now 0)\<rparr>;
               (work_order, db1) = WorkOrder_save (now 1) object_id work_order db;
               db2 = ProductionLog_create object_id (request_operator request) ''stop'' (now 2) db1
           in Inr (db2, \<lparr>message_level = ''success'',
                         message_text = ''Work Order '' @ wo_number work_order @ '' completed.'',
                         redirect_to = object_id\<rparr>)))"

text \<open>
  \<^verbatim>\<open>
  def pause_work_order(self, request, object_id):
      work_order = WorkOrder.objects.get(pk=object_id)
      work_order.status = 'paused'
      work_order.save()
      ProductionLog.objects.create(work_order=work_order, operator=..., action_type='pause',
                                   timestamp=timezone.now())
      messages.warning(request, _(f'Work Order {work_order.wo_number} paused.'))
      return redirect('admin:mes_workorder_change', object_id)
  \<close>
  and \<^verbatim>\<open>resume_work_order\<close> likewise, with \<^verbatim>\<open>'in_progress'\<close>, \<^verbatim>\<open>'resume'\<close> and \<^verbatim>\<open>messages.success\<close>.
\<close>

definition pause_work_order ::
  "(nat \<Rightarrow> datetime) \<Rightarrow> request \<Rightarrow> pk \<Rightarrow> mes_db \<Rightarrow> error + (mes_db \<times> response)" where
  "pause_work_order now request object_id db =
     (case work_orders db object_id of
        None \<Rightarrow> Inl DoesNotExist
      | Some wo \<Rightarrow>
          (let work_order = wo\<lparr>status := ''paused''\<rparr>;
               (work_order, db1) = WorkOrder_save (now 0) object_id work_order db;
               db2 = ProductionLog_create object_id (request_operator request) ''pause'' (now 1) db1
           in Inr (db2, \<lparr>message_level = ''warning'',
                         message_text = ''Work Order '' @ wo_number work_order @ '' paused.'',
                         redirect_to = object_id\<rparr>)))"

definition resume_work_order ::
  "(nat \<Rightarrow> datetime) \<Rightarrow> request \<Rightarrow> pk \<Rightarrow> mes_db \<Rightarrow> error + (mes_db \<times> response)" where
  "resume_work_order now request object_id db =
     (case work_orders db object_id of
        None \<Rightarrow> Inl DoesNotExist
      | Some wo \<Rightarrow>
          (let work_order = wo\<lparr>status := ''in_progress''\<rparr>;
               (work_order, db1) = WorkOrder_save (now 0) object_id work_order db;
               db2 = ProductionLog_create object_id (request_operator request) ''resume'' (now 1) db1
           in Inr (db2, \<lparr>message_level = ''success'',
                         message_text = ''Work Order '' @ wo_number work_order @ '' resumed.'',
                         redirect_to = object_id\<rparr>)))"

text \<open>
  The routes of \<^verbatim>\<open>get_urls\<close>: \<^verbatim>\<open><int:object_id>/start/\<close>, \<^verbatim>\<open>/stop/\<close>, \<^verbatim>\<open>/pause/\<close>, \<^verbatim>\<open>/resume/\<close>, each
  behind \<^verbatim>\<open>admin_view\<close>.
\<close>

datatype transition = Start | Stop | Pause | Resume

fun mes_workorder ::
  "transition \<Rightarrow> (nat \<Rightarrow> datetime) \<Rightarrow> request \<Rightarrow> pk \<Rightarrow> mes_db \<Rightarrow> error + (mes_db \<times> response)" where
  "mes_workorder Start now request object_id db =
     admin_view request (start_work_order now request object_id db)"
| "mes_workorder Stop now request object_id db =
     admin_view request (stop_work_order now request object_id db)"
| "mes_workorder Pause now request object_id db =
     admin_view request (pause_work_order now request object_id db)"
| "mes_workorder Resume now request object_id db =
     admin_view request (resume_work_order now request object_id db)"

text \<open>
  \<^verbatim>\<open>action_buttons\<close> renders one link per transition it offers; the model keeps which
  transitions are offered, in the order the links are appended.
  \<^verbatim>\<open>
  if obj.status == 'ready':        buttons.append(... /start/ ...)
  if obj.status == 'in_progress':  buttons.append(... /pause/ ...); buttons.append(... /stop/ ...)
  if obj.status == 'paused':       buttons.append(... /resume/ ...)
  \<close>
\<close>

definition action_buttons :: "work_order \<Rightarrow> transition list" where
  "action_buttons obj =
     (let buttons = [];
          buttons = (if status obj = ''ready'' then buttons @ [Start] else buttons);
          buttons = (if status obj = ''in_progress'' then buttons @ [Pause] @ [Stop] else buttons);
          buttons = (if status obj = ''paused'' then buttons @ [Resume] else buttons)
      in buttons)"

section \<open>dashboard.views: the OEE figure of \<^verbatim>\<open>get_kpis\<close>\<close>

text \<open>
  Python's \<^verbatim>\<open>round(x, ndigits)\<close>: to the nearest number with \<open>ndigits\<close> decimals, a tie going
  to the even neighbour. (On floats Python rounds the binary value; the model rounds the exact one.)
\<close>

definition round_half_even :: "rat \<Rightarrow> int" where
  "round_half_even x =
     (let f = \<lfloor>x\<rfloor>; d = x - of_int f
      in if d < 1 / 2 then f else if 1 / 2 < d then f + 1 else if even f then f else f + 1)"

definition py_round :: "rat \<Rightarrow> nat \<Rightarrow> rat" where
  "py_round x ndigits = of_int (round_half_even (x * 10 ^ ndigits)) / 10 ^ ndigits"

text \<open>
  \<^verbatim>\<open>
  today = timezone.now().date()
  month_start = today.replace(day=1)
  wo_this_month = WorkOrder.objects.filter(planned_start__gte=month_start)
  completed_wo = wo_this_month.filter(status='completed')
  ...
  oee = 0
  if completed_wo.exists():
      efficiency_avg = 0
      count = 0
      for wo in completed_wo:
          if wo.efficiency:
              efficiency_avg += wo.efficiency
              count += 1
      oee = (efficiency_avg / count) if count > 0 else 0
  ...
  return {'oee': round(oee, 1), ...}
  \<close>
  \<^verbatim>\<open>if wo.efficiency\<close> tests a value that is \<^verbatim>\<open>None\<close> or a number: it is false for \<^verbatim>\<open>None\<close> and
  for zero. The calendar computation of the first instant of the month is a parameter.
\<close>

fun oee_loop :: "work_order list \<Rightarrow> rat \<Rightarrow> nat \<Rightarrow> rat \<times> nat" where
  "oee_loop [] efficiency_avg cnt = (efficiency_avg, cnt)"
| "oee_loop (wo # rest) efficiency_avg cnt =
     (case efficiency wo of
        None \<Rightarrow> oee_loop rest efficiency_avg cnt
      | Some e \<Rightarrow>
          if e \<noteq> 0 then oee_loop rest (efficiency_avg + e) (cnt + 1)
          else oee_loop rest efficiency_avg cnt)"

definition completed_this_month :: "datetime \<Rightarrow> work_order list \<Rightarrow> work_order list" where
  "completed_this_month month_start WorkOrder_objects =
     (let wo_this_month =
            filter (\<lambda>wo. case planned_start wo of None \<Rightarrow> False | Some t \<Rightarrow> month_start \<le> t)
              WorkOrder_objects;
          completed_wo = filter (\<lambda>wo. status wo = ''completed'') wo_this_month
      in completed_wo)"

definition get_kpis_oee :: "datetime \<Rightarrow> work_order list \<Rightarrow> rat" where
  "get_kpis_oee month_start WorkOrder_objects =
     (let completed_wo = completed_this_month month_start WorkOrder_objects;
          oee = (if completed_wo \<noteq> [] then
                   (case oee_loop completed_wo 0 0 of
                      (efficiency_avg, cnt) \<Rightarrow>
                        if cnt > 0 then efficiency_avg / of_nat cnt else 0)
                 else 0)
      in py_round oee 1)"

text \<open>
  The figure as the specification words it: the average of the efficiency over the completed
  work orders of the month that have one, rounded to one decimal; 0 when there is none.
\<close>

definition oee_spec :: "datetime \<Rightarrow> work_order list \<Rightarrow> rat" where
  "oee_spec month_start WorkOrder_objects =
     (let defined = List.map_filter efficiency (completed_this_month month_start WorkOrder_objects)
      in if defined = [] then 0 else py_round (sum_list defined / of_nat (length defined)) 1)"

section \<open>core.models: the audit log\<close>

record log_data =
  ld_id :: pk
  ld_user :: "pk option"
  ld_employee :: "pk option"
  ld_action_type :: string
  ld_model_name :: "string option"
  ld_object_id :: "int option"
  ld_description :: string
  ld_ip_address :: "string option"
  ld_device_info :: "string option"
  ld_nfc_uid :: "string option"
  ld_timestamp :: datetime

text \<open>
  The table is the list of its rows in insertion order. \<^verbatim>\<open>Meta.ordering = ['-timestamp']\<close>: a
  query without an explicit order returns the rows by descending timestamp (the order among
  equal timestamps is the database's choice; the model keeps insertion order there).
\<close>

definition LogData_objects_all :: "log_data list \<Rightarrow> log_data list" where
  "LogData_objects_all rows = sort_key (\<lambda>r. - ld_timestamp r) rows"

definition next_pk :: "log_data list \<Rightarrow> pk" where
  "next_pk rows = Suc (fold max (map ld_id rows) 0)"

section \<open>core.admin: the console screen of the audit log\<close>

text \<open>
  A \<^verbatim>\<open>ModelAdmin\<close> answers four permission questions. The framework's defaults ask the account
  for the model's \<^verbatim>\<open>add\<close>, \<^verbatim>\<open>change\<close>, \<^verbatim>\<open>delete\<close> and \<^verbatim>\<open>view\<close> permissions (a view is also granted
  by the change permission); an active superuser holds every permission.
\<close>

definition has_perm :: "auth_user \<Rightarrow> string \<Rightarrow> bool" where
  "has_perm u perm = (is_active u \<and> (is_superuser u \<or> perm \<in> set (user_permissions u)))"

record model_admin =
  has_add_permission :: "request \<Rightarrow> bool"
  has_change_permission :: "request \<Rightarrow> bool"
  has_delete_permission :: "request \<Rightarrow> bool"
  has_view_permission :: "request \<Rightarrow> bool"

definition ModelAdmin :: "string \<Rightarrow> string \<Rightarrow> model_admin" where
  "ModelAdmin app_label model_name =
     \<lparr>has_add_permission =
        (\<lambda>request. has_perm (req_user request) (app_label @ ''.add_'' @ model_name)),
      has_change_permission =
        (\<lambda>request. has_perm (req_user request) (app_label @ ''.change_'' @ model_name)),
      has_delete_permission =
        (\<lambda>request. has_perm (req_user request) (app_label @ ''.delete_'' @ model_name)),
      has_view_permission =
        (\<lambda>request. has_perm (req_user request) (app_label @ ''.view_'' @ model_name) \<or>
                    has_perm (req_user request) (app_label @ ''.change_'' @ model_name))\<rparr>"

text \<open>
  \<^verbatim>\<open>
  @admin.register(LogData)
  class LogDataAdmin(admin.ModelAdmin):
      ...
      def has_add_permission(self, request):
          return False
      def has_change_permission(self, request, obj=None):
          return False
  \<close>
  Two of the four answers are overridden; \<^verbatim>\<open>has_delete_permission\<close> and
  \<^verbatim>\<open>has_view_permission\<close> are inherited.
\<close>

definition LogDataAdmin :: model_admin where
  "LogDataAdmin = (ModelAdmin ''core'' ''logdata'')
     \<lparr>has_add_permission := (\<lambda>request. False),
      has_change_permission := (\<lambda>request. False)\<rparr>"

text \<open>
  The operations a model's console screen offers, as the framework runs them: each asks the
  admin class first and raises \<^verbatim>\<open>PermissionDenied\<close> on a refusal. The result is the table
  afterwards and the rows displayed. (The bulk action that deletes the selected rows asks
  the same delete question as the delete page.)
\<close>

datatype console_op =
    Add_view log_data
  | Change_view pk log_data
  | Delete_view pk
  | Changelist_view

fun model_console ::
  "model_admin \<Rightarrow> request \<Rightarrow> console_op \<Rightarrow> log_data list
     \<Rightarrow> error + (log_data list \<times> log_data list)" where
  "model_console adm request (Add_view obj) rows =
     (if \<not> has_add_permission adm request then Inl PermissionDenied
      else Inr (rows @ [obj\<lparr>ld_id := next_pk rows\<rparr>], []))"
| "model_console adm request (Change_view key obj) rows =
     (if \<not> has_change_permission adm request then Inl PermissionDenied
      else if key \<notin> set (map ld_id rows) then Inl DoesNotExist
      else Inr (map (\<lambda>r. if ld_id r = key then obj\<lparr>ld_id := key\<rparr> else r) rows, []))"
| "model_console adm request (Delete_view key) rows =
     (if \<not> has_delete_permission adm request then Inl PermissionDenied
      else if key \<notin> set (map ld_id rows) then Inl DoesNotExist
      else Inr (filter (\<lambda>r. ld_id r \<noteq> key) rows, []))"
| "model_console adm request Changelist_view rows =
     (if \<not> (has_view_permission adm request \<or> has_change_permission adm request)
      then Inl PermissionDenied
      else Inr (rows, LogData_objects_all rows))"

definition LogData_console ::
  "request \<Rightarrow> console_op \<Rightarrow> log_data list \<Rightarrow> error + (log_data list \<times> log_data list)" where
  "LogData_console request op rows = admin_view request (model_console LogDataAdmin request op rows)"

section \<open>core.signals: automatic logging\<close>

text \<open>
  The model classes of the four applications (and the framework's account model), as senders
  of the model signals.
\<close>

datatype model_class =
    User | Company | Department | Employee | UserProfile | LogData
  | ProductCategory | Product | Supplier | Customer | PurchaseOrder | PurchaseOrderLine
  | SalesOrder | SalesOrderLine | Invoice | Payment
  | ProductionLine | Shift | Machine | WorkOrder | ProductionLog | QualityCheck | Downtime
  | Material | BOM | BOMLine | Inventory | StockMovement | PurchaseRequest | ReorderRule
  | MRPCalculation

text \<open>
  What a receiver reads of the instance it is handed: its primary key and its \<^verbatim>\<open>__str__\<close>; the
  two dedicated receivers read \<^verbatim>\<open>employee_id\<close> and \<^verbatim>\<open>full_name\<close> of an Employee and the account
  of a UserProfile.
\<close>

record model_instance =
  obj_id :: int
  obj_str :: string
  obj_employee_id :: string
  obj_full_name :: string
  obj_user :: "pk option"
  obj_username :: string

text \<open>
  \<^verbatim>\<open>
  def create_log(action_type, description, user=None, employee=None, model_name=None,
                 object_id=None, nfc_uid=None):
      request = get_current_request()
      ip_address = None
      device_info = None
      if request:
          ip_address = request.META.get('REMOTE_ADDR')
          device_info = request.META.get('HTTP_USER_AGENT', '')[:200]
          if not user and request.user.is_authenticated:
              user = request.user
          if not employee and hasattr(request.user, 'profile') and request.user.profile.employee:
              employee = request.user.profile.employee
      LogData.objects.create(user=user, employee=employee, action_type=action_type,
          model_name=model_name, object_id=object_id, description=description,
          ip_address=ip_address, device_info=device_info, nfc_uid=nfc_uid)
  \<close>
  The request of the thread, if any, is the argument \<open>current_request\<close>; \<open>t\<close> is the time
  the new row's \<^verbatim>\<open>auto_now_add\<close> timestamp takes. \<^verbatim>\<open>LogData\<close> has no receiver of its own, so
  the insert sends nothing further.
\<close>

definition create_log ::
  "datetime \<Rightarrow> request option \<Rightarrow> string \<Rightarrow> string \<Rightarrow> pk option \<Rightarrow> pk option \<Rightarrow> string option
     \<Rightarrow> int option \<Rightarrow> string option \<Rightarrow> log_data list \<Rightarrow> log_data list" where
  "create_log t current_request action_type description user employee model_name object_id
     nfc_uid logs =
     (let ip_address =
            (case current_request of None \<Rightarrow> None | Some request \<Rightarrow> META request ''REMOTE_ADDR'');
          device_info =
            (case current_request of
               None \<Rightarrow> None
             | Some request \<Rightarrow>
                 Some (take 200 (case META request ''HTTP_USER_AGENT'' of
                                   None \<Rightarrow> [] | Some agent \<Rightarrow> agent)));
          user =
            (case current_request of
               None \<Rightarrow> user
             | Some request \<Rightarrow>
                 if user = None \<and> is_authenticated (req_user request)
                 then Some (user_pk (req_user request)) else user);
          employee =
            (case current_request of
               None \<Rightarrow> employee
             | Some request \<Rightarrow>
                 if employee = None \<and> request_operator request \<noteq> None
                 then request_operator request else employee)
      in logs @
         [\<lparr>ld_id = next_pk logs, ld_user = user, ld_employee = employee,
           ld_action_type = action_type, ld_model_name = model_name, ld_object_id = object_id,
           ld_description = description, ld_ip_address = ip_address,
           ld_device_info = device_info, ld_nfc_uid = nfc_uid, ld_timestamp = t\<rparr>])"

text \<open>
  The receivers of the module. The two dedicated ones:
  \<^verbatim>\<open>
  @receiver(post_save, sender=Employee)
  def log_employee_save(sender, instance, created, **kwargs):
      action = 'create' if created else 'update'
      description = f'Employee {instance.employee_id} - {instance.full_name} {"created" if created else "updated"}'
      create_log(action_type=action, description=description, model_name='Employee',
                 object_id=instance.id)

  @receiver(post_save, sender=UserProfile)
  def log_profile_save(sender, instance, created, **kwargs):
      if not created:
          create_log(action_type='update',
                     description=f'User profile updated for {instance.user.username}',
                     model_name='UserProfile', object_id=instance.id, user=instance.user)
  \<close>
\<close>

definition log_employee_save ::
  "datetime \<Rightarrow> request option \<Rightarrow> model_instance \<Rightarrow> bool \<Rightarrow> log_data list \<Rightarrow> log_data list" where
  "log_employee_save t current_request instance created logs =
     (let action = (if created then ''create'' else ''update'');
          description = ''Employee '' @ obj_employee_id instance @ '' - '' @ obj_full_name instance
                          @ '' '' @ (if created then ''created'' else ''updated'')
      in create_log t current_request action description None None (Some ''Employee'')
           (Some (obj_id instance)) None logs)"

definition log_profile_save ::
  "datetime \<Rightarrow> request option \<Rightarrow> model_instance \<Rightarrow> bool \<Rightarrow> log_data list \<Rightarrow> log_data list" where
  "log_profile_save t current_request instance created logs =
     (if \<not> created
      then create_log t current_request ''update''
             (''User profile updated for '' @ obj_username instance) (obj_user instance) None
             (Some ''UserProfile'') (Some (obj_id instance)) None logs
      else logs)"

text \<open>
  The two receivers the factory makes for a tracked model:
  \<^verbatim>\<open>
  def create_generic_log_signal(model_class, model_name):
      @receiver(post_save, sender=model_class)
      def log_model_save(sender, instance, created, **kwargs):
          action = 'create' if created else 'update'
          description = f'{model_name} {instance} {"created" if created else "updated"}'
          create_log(action_type=action, description=description, model_name=model_name,
                     object_id=instance.id)

      @receiver(post_delete, sender=model_class)
      def log_model_delete(sender, instance, **kwargs):
          description = f'{model_name} {instance} deleted'
          create_log(action_type='delete', description=description, model_name=model_name,
                     object_id=instance.id)
  \<close>
\<close>

definition log_model_save ::
  "string \<Rightarrow> datetime \<Rightarrow> request option \<Rightarrow> model_instance \<Rightarrow> bool \<Rightarrow> log_data list
     \<Rightarrow> log_data list" where
  "log_model_save model_name t current_request instance created logs =
     (let action = (if created then ''create'' else ''update'');
          description = model_name @ '' '' @ obj_str instance @ '' ''
                          @ (if created then ''created'' else ''updated'')
      in create_log t current_request action description None None (Some model_name)
           (Some (obj_id instance)) None logs)"

definition log_model_delete ::
  "string \<Rightarrow> datetime \<Rightarrow> request option \<Rightarrow> model_instance \<Rightarrow> log_data list \<Rightarrow> log_data list" where
  "log_model_delete model_name t current_request instance logs =
     (let description = model_name @ '' '' @ obj_str instance @ '' deleted''
      in create_log t current_request ''delete'' description None None (Some model_name)
           (Some (obj_id instance)) None logs)"

text \<open>
  A connection is what \<^verbatim>\<open>@receiver(signal, sender=...)\<close> records: the signal, the sender and
  the receiver. \<^verbatim>\<open>@receiver\<close> connects with the framework's default \<^verbatim>\<open>weak=True\<close>: the
  connection holds a weak reference, which does not keep the function alive and goes dead
  when the function is collected. In the model a weak reference is the receiver while it is
  alive and \<open>None\<close> afterwards.
\<close>

datatype signal = Post_save | Post_delete

datatype receiver =
    Log_employee_save
  | Log_profile_save
  | Log_model_save string
  | Log_model_delete string

type_synonym connection = "signal \<times> model_class \<times> receiver option"

definition connect :: "signal \<Rightarrow> model_class \<Rightarrow> receiver \<Rightarrow> connection list \<Rightarrow> connection list" where
  "connect sig sender r connections = connections @ [(sig, sender, Some r)]"

text \<open>The function \<open>r\<close> is collected: every weak reference to it goes dead.\<close>

definition collect :: "receiver \<Rightarrow> connection list \<Rightarrow> connection list" where
  "collect r connections =
     map (\<lambda>(s, m, w). if w = Some r then (s, m, None) else (s, m, w)) connections"

text \<open>
  \<^verbatim>\<open>log_employee_save\<close> and \<^verbatim>\<open>log_profile_save\<close> are functions of the module, which holds them
  for good. \<^verbatim>\<open>log_model_save\<close> and \<^verbatim>\<open>log_model_delete\<close> are local functions of
  \<^verbatim>\<open>create_generic_log_signal\<close>: the call binds them to two local names, connects them, and
  returns nothing. The source keeps no other reference to them, so when the call returns
  they are collected, unless something outside the module has taken a reference meanwhile
  (the framework's \<^verbatim>\<open>connect\<close> inspects the receiver's signature when \<^verbatim>\<open>settings.DEBUG\<close> is
  on, through a cache that keeps the function). The settings are not among the sources:
  \<open>closures_held\<close> says whether such an outside reference exists.
\<close>

definition create_generic_log_signal ::
  "bool \<Rightarrow> model_class \<Rightarrow> string \<Rightarrow> connection list \<Rightarrow> connection list" where
  "create_generic_log_signal closures_held model_class model_name connections =
     (let connections = connect Post_save model_class (Log_model_save model_name) connections;
          connections = connect Post_delete model_class (Log_model_delete model_name) connections
      in if closures_held then connections
         else collect (Log_model_delete model_name)
                (collect (Log_model_save model_name) connections))"

text \<open>
  \<^verbatim>\<open>
  models_to_track = [(Product, 'Product'), (PurchaseOrder, 'PurchaseOrder'), ...]
  for model_class, model_name in models_to_track:
      create_generic_log_signal(model_class, model_name)
  \<close>
\<close>

definition models_to_track :: "(model_class \<times> string) list" where
  "models_to_track =
     [(Product, ''Product''),
      (PurchaseOrder, ''PurchaseOrder''),
      (SalesOrder, ''SalesOrder''),
      (Invoice, ''Invoice''),
      (WorkOrder, ''WorkOrder''),
      (ProductionLog, ''ProductionLog''),
      (QualityCheck, ''QualityCheck''),
      (Material, ''Material''),
      (BOM, ''BOM''),
      (Inventory, ''Inventory''),
      (StockMovement, ''StockMovement''),
      (PurchaseRequest, ''PurchaseRequest'')]"

fun register_loop ::
  "bool \<Rightarrow> (model_class \<times> string) list \<Rightarrow> connection list \<Rightarrow> connection list" where
  "register_loop closures_held [] connections = connections"
| "register_loop closures_held ((model_class, model_name) # rest) connections =
     register_loop closures_held rest
       (create_generic_log_signal closures_held model_class model_name connections)"

definition register_model_signals :: "bool \<Rightarrow> connection list \<Rightarrow> connection list" where
  "register_model_signals closures_held connections =
     register_loop closures_held models_to_track connections"

text \<open>
  The connections once the application is ready: importing the module connects the two
  dedicated receivers, then \<^verbatim>\<open>CoreConfig.ready\<close> calls \<^verbatim>\<open>register_model_signals()\<close>.
\<close>

definition connections_when_ready :: "bool \<Rightarrow> connection list" where
  "connections_when_ready closures_held =
     register_model_signals closures_held
       (connect Post_save UserProfile Log_profile_save
          (connect Post_save Employee Log_employee_save []))"

text \<open>
  Sending a signal calls, in connection order, the receivers connected to it for the sender
  that are still alive; a dead reference is skipped.
\<close>

fun call_receiver ::
  "receiver \<Rightarrow> datetime \<Rightarrow> request option \<Rightarrow> model_instance \<Rightarrow> bool \<Rightarrow> log_data list
     \<Rightarrow> log_data list" where
  "call_receiver Log_employee_save t req instance created logs =
     log_employee_save t req instance created logs"
| "call_receiver Log_profile_save t req instance created logs =
     log_profile_save t req instance created logs"
| "call_receiver (Log_model_save model_name) t req instance created logs =
     log_model_save model_name t req instance created logs"
| "call_receiver (Log_model_delete model_name) t req instance created logs =
     log_model_delete model_name t req instance logs"

fun send ::
  "connection list \<Rightarrow> signal \<Rightarrow> model_class \<Rightarrow> datetime \<Rightarrow> request option \<Rightarrow> model_instance
     \<Rightarrow> bool \<Rightarrow> log_data list \<Rightarrow> log_data list" where
  "send [] sig sender t req instance created logs = logs"
| "send ((s, m, w) # rest) sig sender t req instance created logs =
     send rest sig sender t req instance created
       (case w of
          None \<Rightarrow> logs
        | Some r \<Rightarrow>
            if s = sig \<and> m = sender then call_receiver r t req instance created logs
            else logs)"

text \<open>
  Saving an instance (\<^verbatim>\<open>Model.save()\<close>) sends \<^verbatim>\<open>post_save\<close> once, with \<^verbatim>\<open>created\<close> telling an
  insert from an update. Deleting an instance sends \<^verbatim>\<open>post_delete\<close> for it and for every row
  the deletion takes along: the rows that reach it through foreign keys declared
  \<^verbatim>\<open>on_delete=CASCADE\<close>. The table below lists, for each model, the models that declare such
  a key to it. Both take the connections in force.
\<close>

definition Model_save ::
  "connection list \<Rightarrow> model_class \<Rightarrow> bool \<Rightarrow> datetime \<Rightarrow> request option \<Rightarrow> model_instance
     \<Rightarrow> log_data list \<Rightarrow> log_data list" where
  "Model_save connections sender created t req instance logs =
     send connections Post_save sender t req instance created logs"

fun cascade_children :: "model_class \<Rightarrow> model_class list" where
  "cascade_children User = [UserProfile]"
| "cascade_children Company = [Department]"
| "cascade_children PurchaseOrder = [PurchaseOrderLine]"
| "cascade_children SalesOrder = [SalesOrderLine]"
| "cascade_children WorkOrder = [ProductionLog, QualityCheck]"
| "cascade_children ProductionLine = [Downtime]"
| "cascade_children Product = [BOM, Inventory, ReorderRule]"
| "cascade_children Material = [Inventory, ReorderRule]"
| "cascade_children BOM = [BOMLine]"
| "cascade_children _ = []"

definition cascade_reach :: "model_class \<Rightarrow> model_class list" where
  "cascade_reach m =
     (let level1 = cascade_children m;
          level2 = concat (map cascade_children level1);
          level3 = concat (map cascade_children level2)
      in level1 @ level2 @ level3)"

fun delete_loop ::
  "connection list \<Rightarrow> (model_class \<times> model_instance) list \<Rightarrow> datetime \<Rightarrow> request option
     \<Rightarrow> log_data list \<Rightarrow> log_data list" where
  "delete_loop connections [] t req logs = logs"
| "delete_loop connections ((m, obj) # rest) t req logs =
     delete_loop connections rest t req (send connections Post_delete m t req obj False logs)"

definition Model_delete ::
  "connection list \<Rightarrow> model_class \<Rightarrow> (model_class \<times> model_instance) list \<Rightarrow> datetime
     \<Rightarrow> request option \<Rightarrow> model_instance \<Rightarrow> log_data list \<Rightarrow> log_data list" where
  "Model_delete connections sender cascaded t req instance logs =
     delete_loop connections (cascaded @ [(sender, instance)]) t req logs"

text \<open>The rows a call has added to the log.\<close>

definition new_entries :: "log_data list \<Rightarrow> log_data list \<Rightarrow> log_data list" where
  "new_entries before after = drop (length before) after"

text \<open>What identifies an entry for the reader of the log: action, model name and object id.\<close>

definition entry_summary :: "log_data \<Rightarrow> string \<times> string option \<times> int option" where
  "entry_summary e = (ld_action_type e, ld_model_name e, ld_object_id e)"

section \<open>erp.admin: the bulk actions on products\<close>

text \<open>
  \<^verbatim>\<open>
  def activate_products(self, request, queryset):
      updated = queryset.update(active=True)
      self.message_user(request, _(f'{updated} products activated.'))

  def deactivate_products(self, request, queryset):
      updated = queryset.update(active=False)
      self.message_user(request, _(f'{updated} products deactivated.'))
  \<close>
  \<^verbatim>\<open>queryset.update\<close> is one UPDATE statement on the selected rows: it returns the number of
  rows it matched, calls no \<^verbatim>\<open>save()\<close> and sends no signal, so no receiver runs. The store is
  the product table with the audit log; the result is the store afterwards and the count
  that goes into the message.
\<close>

record audited_store =
  products :: "product table"
  audit_log :: "log_data list"

definition queryset_update_active :: "bool \<Rightarrow> pk list \<Rightarrow> product table \<Rightarrow> nat \<times> product table" where
  "queryset_update_active v queryset tbl =
     (length (filter (\<lambda>k. tbl k \<noteq> None) (remdups queryset)),
      (\<lambda>k. if k \<in> set queryset then map_option (\<lambda>p. p\<lparr>active := v\<rparr>) (tbl k) else tbl k))"

definition activate_products :: "request \<Rightarrow> pk list \<Rightarrow> audited_store \<Rightarrow> audited_store \<times> nat" where
  "activate_products request queryset store =
     (case queryset_update_active True queryset (products store) of
        (updated, tbl) \<Rightarrow> (store\<lparr>products := tbl\<rparr>, updated))"

definition deactivate_products :: "request \<Rightarrow> pk list \<Rightarrow> audited_store \<Rightarrow> audited_store \<times> nat" where
  "deactivate_products request queryset store =
     (case queryset_update_active False queryset (products store) of
        (updated, tbl) \<Rightarrow> (store\<lparr>products := tbl\<rparr>, updated))"

section \<open>Sample rows\<close>

text \<open>Rows in the style of the seeding command, used where a statement needs a concrete input.\<close>

definition widget :: product where
  "widget = \<lparr>product_number = ''PRD001'', product_name = ''Smart Widget A'', sku = None,
             price = 150, cost = 80, min_stock = 0, max_stock = 0, active = True\<rparr>"

definition steel :: material where
  "steel = \<lparr>material_code = ''MAT001'', material_name = ''Steel Sheet'', unit_cost = 50\<rparr>"

definition overreserved_widget_stock :: inventory where
  "overreserved_widget_stock =
     \<lparr>inv_product = Some widget, inv_material = None, warehouse = ''Main'', location = None,
      quantity_on_hand = 0, quantity_reserved = 5, quantity_available = - 5\<rparr>"

definition overreserved_steel_stock :: inventory where
  "overreserved_steel_stock =
     \<lparr>inv_product = None, inv_material = Some steel, warehouse = ''Main'', location = None,
      quantity_on_hand = 0, quantity_reserved = 5, quantity_available = - 5\<rparr>"

definition scarce_widget_stock :: inventory where
  "scarce_widget_stock =
     \<lparr>inv_product = Some (widget\<lparr>min_stock := 20\<rparr>), inv_material = None, warehouse = ''Main'',
      location = None, quantity_on_hand = 12, quantity_reserved = 2, quantity_available = 10\<rparr>"

definition clerk :: request where
  "clerk = \<lparr>req_user = \<lparr>user_pk = 2, username = ''operator1'', is_authenticated = True,
       is_active = True, is_staff = True, is_superuser = False, user_permissions = [],
       profile = Some \<lparr>profile_employee = Some 7, profile_nfc_uid = None\<rparr>\<rparr>,
     META = Map.empty\<rparr>"

definition finished_order :: work_order where
  "finished_order = \<lparr>wo_number = ''WO-0001'', wo_sales_order = None, wo_product = 1,
     wo_production_line = Some 1, planned_quantity = 100, produced_quantity = 95,
     rejected_quantity = 2, planned_start = Some 1000, planned_end = Some 5000,
     actual_start = Some 1200, actual_end = Some 4800, status = ''completed'', priority = 5,
     wo_notes = None, wo_created_by = None, wo_created_at = 900, wo_updated_at = 4800\<rparr>"

definition running_order :: work_order where
  "running_order = finished_order\<lparr>wo_number := ''WO-0002'', actual_end := None,
     status := ''in_progress'', wo_updated_at := 1200\<rparr>"

definition floor_db :: mes_db where
  "floor_db = \<lparr>work_orders = [1 \<mapsto> finished_order, 2 \<mapsto> running_order], production_logs = []\<rparr>"

text \<open>A clock that starts at 9000 and advances by one at each reading.\<close>

definition ticks :: "nat \<Rightarrow> datetime" where
  "ticks n = 9000 + int n"

text \<open>Two completed orders of the month: one that took exactly the planned hour, one whose
  planned end is its planned start.\<close>

definition on_time_order :: work_order where
  "on_time_order = finished_order\<lparr>planned_start := Some 0, planned_end := Some 3600000000,
     actual_start := Some 0, actual_end := Some 3600000000\<rparr>"

definition unplanned_order :: work_order where
  "unplanned_order = finished_order\<lparr>wo_number := ''WO-0003'', planned_start := Some 0,
     planned_end := Some 0, actual_start := Some 0, actual_end := Some 3600000000\<rparr>"

definition root :: request where
  "root = \<lparr>req_user = \<lparr>user_pk = 1, username = ''admin'', is_authenticated = True,
       is_active = True, is_staff = True, is_superuser = True, user_permissions = [],
       profile = None\<rparr>,
     META = [''REMOTE_ADDR'' \<mapsto> ''10.0.0.5'', ''HTTP_USER_AGENT'' \<mapsto> ''Mozilla/5.0'']\<rparr>"

definition login_entry :: log_data where
  "login_entry = \<lparr>ld_id = 1, ld_user = Some 1, ld_employee = None, ld_action_type = ''login'',
     ld_model_name = None, ld_object_id = None, ld_description = ''User admin logged in'',
     ld_ip_address = Some ''10.0.0.5'', ld_device_info = Some ''Mozilla/5.0'',
     ld_nfc_uid = None, ld_timestamp = 100\<rparr>"

definition create_entry :: log_data where
  "create_entry = \<lparr>ld_id = 2, ld_user = Some 1, ld_employee = None, ld_action_type = ''create'',
     ld_model_name = Some ''Product'', ld_object_id = Some 1,
     ld_description = ''Product PRD001 - Smart Widget A created'',
     ld_ip_address = Some ''10.0.0.5'', ld_device_info = Some ''Mozilla/5.0'',
     ld_nfc_uid = None, ld_timestamp = 200\<rparr>"

definition widget_row :: model_instance where
  "widget_row = \<lparr>obj_id = 1, obj_str = ''PRD001 - Smart Widget A'', obj_employee_id = [],
     obj_full_name = [], obj_user = None, obj_username = []\<rparr>"

definition widget_stock_row :: model_instance where
  "widget_stock_row = \<lparr>obj_id = 4, obj_str = ''PRD001 - Smart Widget A - Main: 12'',
     obj_employee_id = [], obj_full_name = [], obj_user = None, obj_username = []\<rparr>"

definition po_line_row :: model_instance where
  "po_line_row = \<lparr>obj_id = 9, obj_str = ''PO-0001 - Smart Widget A'', obj_employee_id = [],
     obj_full_name = [], obj_user = None, obj_username = []\<rparr>"

definition widget_shop :: audited_store where
  "widget_shop = \<lparr>products = [1 \<mapsto> widget], audit_log = [login_entry]\<rparr>"

definition widget_bom :: bom where
  "widget_bom = \<lparr>bom_number = ''BOM001'', bom_version = ''1.0'', lines =
     [\<lparr>line_number = 1, line_material = Some steel, line_component = None,
       line_quantity = 2, scrap_factor = 5\<rparr>,
      \<lparr>line_number = 2, line_material = None, line_component = Some (widget\<lparr>cost := 25\<rparr>),
       line_quantity = 4, scrap_factor = 10\<rparr>]\<rparr>"

section \<open>Properties of the commerce models\<close>

text \<open>
  C9. For every Product, margin equals (price - cost) / price * 100 when price > 0, and
  equals 0 when price is 0 or less, regardless of cost.
\<close>

theorem product_margin:
  "(0 < price p \<longrightarrow> margin p = (price p - cost p) / price p * 100) \<and>
   (price p \<le> 0 \<longrightarrow> margin p = 0)"
proof (cases "0 < price p")
  case True
  then show ?thesis
    by (simp add: margin_def)
next
  case False
  then have "margin p = 0"
    by (simp add: margin_def)
  with False show ?thesis
    by simp
qed

theorem product_margin_witness:
  "margin widget = 140 / 3 \<and> margin (widget\<lparr>price := 0\<rparr>) = 0"
  using product_margin [of widget] product_margin [of "widget\<lparr>price := 0\<rparr>"]
  by (simp add: widget_def)


text \<open>The specification's example: quantity 10 at 25.00 gives 250.00, whatever was there before.\<close>

lemma order_line_save_example:
  "pol_total_price (fst (PurchaseOrderLine_save 1
      \<lparr>pol_purchase_order = 1, pol_product = 1, pol_quantity = 10, pol_unit_price = 25,
       pol_total_price = Some 7, received_quantity = 0\<rparr> Map.empty)) = Some 250"
  by (simp add: PurchaseOrderLine_save_def Let_def)

section \<open>Properties of the planning models\<close>

text \<open>
  C5. For every Inventory row, immediately after any save, quantity_available equals
  quantity_on_hand minus quantity_reserved, whatever quantity_available held before; the
  two inputs are untouched and the row written is the instance.
\<close>

theorem inventory_save_available:
  "quantity_available (fst (Inventory_save k row tbl)) = quantity_on_hand row - quantity_reserved row \<and>
   quantity_on_hand (fst (Inventory_save k row tbl)) = quantity_on_hand row \<and>
   quantity_reserved (fst (Inventory_save k row tbl)) = quantity_reserved row \<and>
   snd (Inventory_save k row tbl) k = Some (fst (Inventory_save k row tbl))"
  by (simp add: Inventory_save_def Let_def)

lemma total_cost_loop_sum:
  "total_cost_loop ls tot = tot + sum_list (map line_cost ls)"
  by (induction ls arbitrary: tot) (auto simp: line_cost_def split: option.splits)

lemma line_cost_scrap: "line_cost (l\<lparr>scrap_factor := s\<rparr>) = line_cost l"
  by (simp add: line_cost_def split: option.splits)

lemma sum_list_line_cost_split:
  assumes "\<forall>l \<in> set ls. line_material l = None \<or> line_component l = None"
  shows "sum_list (map line_cost ls) =
     sum_list (map (\<lambda>l. line_quantity l * unit_cost (the (line_material l)))
                (filter (\<lambda>l. line_material l \<noteq> None) ls)) +
     sum_list (map (\<lambda>l. line_quantity l * cost (the (line_component l)))
                (filter (\<lambda>l. line_component l \<noteq> None) ls))"
  using assms
proof (induction ls)
  case Nil
  then show ?case by simp
next
  case (Cons l ls)
  then have "line_material l = None \<or> line_component l = None"
    by simp
  then have "line_cost l =
     (if line_material l \<noteq> None
      then line_quantity l * unit_cost (the (line_material l)) else 0) +
     (if line_component l \<noteq> None
      then line_quantity l * cost (the (line_component l)) else 0)"
    by (auto simp: line_cost_def split: option.splits)
  moreover from Cons have "sum_list (map line_cost ls) =
     sum_list (map (\<lambda>l. line_quantity l * unit_cost (the (line_material l)))
                (filter (\<lambda>l. line_material l \<noteq> None) ls)) +
     sum_list (map (\<lambda>l. line_quantity l * cost (the (line_component l)))
                (filter (\<lambda>l. line_component l \<noteq> None) ls))"
    by simp
  ultimately show ?case
    by simp
qed

text \<open>
  C7. For every BOM, total_cost is the sum over its lines of quantity * material.unit_cost
  for a line with a material and quantity * component.cost for a line with a component
  product, on the raw quantity: a line with neither adds nothing, and a line with both
  counts once, as a material line. When no line has both, that is the sum over the
  material lines plus the sum over the component lines. Replacing the scrap factors of the
  lines by anything else leaves the result as it is.
\<close>

theorem bom_total_cost:
  "total_cost b = sum_list (map line_cost (lines b)) \<and>
   ((\<forall>l \<in> set (lines b). line_material l = None \<or> line_component l = None) \<longrightarrow>
      total_cost b =
        sum_list (map (\<lambda>l. line_quantity l * unit_cost (the (line_material l)))
                   (filter (\<lambda>l. line_material l \<noteq> None) (lines b))) +
        sum_list (map (\<lambda>l. line_quantity l * cost (the (line_component l)))
                   (filter (\<lambda>l. line_component l \<noteq> None) (lines b)))) \<and>
   total_cost (b\<lparr>lines := map (\<lambda>l. l\<lparr>scrap_factor := f l\<rparr>) (lines b)\<rparr>) = total_cost b"
proof -
  have sum: "total_cost b' = sum_list (map line_cost (lines b'))" for b'
    by (simp add: total_cost_def total_cost_loop_sum)
  have "map line_cost (map (\<lambda>l. l\<lparr>scrap_factor := f l\<rparr>) (lines b)) = map line_cost (lines b)"
    by (simp add: line_cost_scrap)
  then have "sum_list (map line_cost (map (\<lambda>l. l\<lparr>scrap_factor := f l\<rparr>) (lines b))) =
             sum_list (map line_cost (lines b))"
    by (rule arg_cong)
  then have frame:
    "total_cost (b\<lparr>lines := map (\<lambda>l. l\<lparr>scrap_factor := f l\<rparr>) (lines b)\<rparr>) = total_cost b"
    unfolding sum by simp
  show ?thesis
  proof (intro conjI impI)
    show "total_cost b = sum_list (map line_cost (lines b))"
      by (rule sum)
  next
    assume "\<forall>l \<in> set (lines b). line_material l = None \<or> line_component l = None"
    from sum_list_line_cost_split [OF this] show "total_cost b =
        sum_list (map (\<lambda>l. line_quantity l * unit_cost (the (line_material l)))
                   (filter (\<lambda>l. line_material l \<noteq> None) (lines b))) +
        sum_list (map (\<lambda>l. line_quantity l * cost (the (line_component l)))
                   (filter (\<lambda>l. line_component l \<noteq> None) (lines b)))"
      unfolding sum .
  next
    show "total_cost (b\<lparr>lines := map (\<lambda>l. l\<lparr>scrap_factor := f l\<rparr>) (lines b)\<rparr>) = total_cost b"
      by (rule frame)
  qed
qed

theorem bom_total_cost_witness:
  "map line_material (lines widget_bom) = [Some steel, None] \<and>
   map line_component (lines widget_bom) = [None, Some (widget\<lparr>cost := 25\<rparr>)] \<and>
   total_cost widget_bom = 2 * 50 + 4 * 25 \<and>
   sum_list (map (\<lambda>l. line_quantity l * unit_cost (the (line_material l)))
              (filter (\<lambda>l. line_material l \<noteq> None) (lines widget_bom))) +
   sum_list (map (\<lambda>l. line_quantity l * cost (the (line_component l)))
              (filter (\<lambda>l. line_component l \<noteq> None) (lines widget_bom))) = 200 \<and>
   total_cost (widget_bom\<lparr>lines := map (\<lambda>l. l\<lparr>scrap_factor := 0\<rparr>) (lines widget_bom)\<rparr>) = 200"
proof -
  have rows: "map line_material (lines widget_bom) = [Some steel, None]"
    "map line_component (lines widget_bom) = [None, Some (widget\<lparr>cost := 25\<rparr>)]"
    by (simp_all add: widget_bom_def)
  have exclusive:
    "\<forall>l \<in> set (lines widget_bom). line_material l = None \<or> line_component l = None"
    by (simp add: widget_bom_def)
  have costs: "sum_list (map line_cost (lines widget_bom)) = 200"
    by (simp add: widget_bom_def line_cost_def steel_def widget_def)
  note inst = bom_total_cost [of widget_bom "\<lambda>l. 0"]
  from inst have "total_cost widget_bom = sum_list (map line_cost (lines widget_bom))"
    by (rule conjunct1)
  with costs have total: "total_cost widget_bom = 200"
    by simp
  from inst have "total_cost
      (widget_bom\<lparr>lines := map (\<lambda>l. l\<lparr>scrap_factor := 0\<rparr>) (lines widget_bom)\<rparr>) =
      total_cost widget_bom"
    by (rule conjunct2 [THEN conjunct2])
  moreover from inst exclusive have "total_cost widget_bom =
      sum_list (map (\<lambda>l. line_quantity l * unit_cost (the (line_material l)))
                 (filter (\<lambda>l. line_material l \<noteq> None) (lines widget_bom))) +
      sum_list (map (\<lambda>l. line_quantity l * cost (the (line_component l)))
                 (filter (\<lambda>l. line_component l \<noteq> None) (lines widget_bom)))"
    by blast
  ultimately show ?thesis
    using total rows by simp
qed

text \<open>The specification's example, computed by the loop: 2 at unit cost 50 and 4 of a
  component costing 25 make 200, with scrap factors of 5 and 10 percent on the lines.\<close>

lemma bom_total_cost_example: "total_cost widget_bom = 200"
  by (simp add: total_cost_def widget_bom_def steel_def widget_def)

text \<open>
  C2, as stated: is_low_stock is true exactly when the row has a product and
  quantity_available < product.min_stock. It fails on a product row whose minimum is zero
  and whose reservations exceed the stock: the row has a product, available (-5) is below
  the minimum (0), and the property is false.
\<close>

theorem is_low_stock_zero_minimum_counterexample:
  "\<not> (is_low_stock overreserved_widget_stock \<longleftrightarrow>
        inv_product overreserved_widget_stock = Some widget \<and>
        quantity_available overreserved_widget_stock < min_stock widget)"
  by (simp add: is_low_stock_def overreserved_widget_stock_def widget_def)

text \<open>
  C2, amended: is_low_stock is true exactly when the row has a product whose min_stock is
  not zero and quantity_available < product.min_stock; a row without a product (a material
  row) is never low on stock, whatever its quantities.
\<close>

theorem is_low_stock_iff:
  "(is_low_stock row \<longleftrightarrow>
      (\<exists>p. inv_product row = Some p \<and> min_stock p \<noteq> 0 \<and> quantity_available row < min_stock p)) \<and>
   (inv_product row = None \<longrightarrow> \<not> is_low_stock row)"
proof (cases "inv_product row")
  case None
  then show ?thesis
    by (simp add: is_low_stock_def)
next
  case (Some p)
  then have "is_low_stock row \<longleftrightarrow> min_stock p \<noteq> 0 \<and> quantity_available row < min_stock p"
    by (simp add: is_low_stock_def)
  with Some show ?thesis
    by simp
qed

theorem is_low_stock_iff_witness:
  "is_low_stock scarce_widget_stock \<and> \<not> is_low_stock overreserved_steel_stock"
  using is_low_stock_iff [of scarce_widget_stock] is_low_stock_iff [of overreserved_steel_stock]
  by (simp add: scarce_widget_stock_def overreserved_steel_stock_def widget_def)

section \<open>Properties of the work-order transitions\<close>

lemmas transition_defs =
  admin_view_def start_work_order_def pause_work_order_def resume_work_order_def
  WorkOrder_save_def ProductionLog_create_def Let_def

lemmas floor_defs = clerk_def floor_db_def finished_order_def running_order_def ticks_def

text \<open>
  C1, as stated: Start on a work order whose status is not 'ready' is rejected, writes no
  ProductionLog and leaves status and actual_start alone. The view never reads the status:
  started on a completed order by a staff session, it answers with the success redirect,
  puts the order back in progress, overwrites actual_start and logs a start.
\<close>

theorem start_on_completed_order_counterexample:
  "status finished_order \<noteq> ''ready'' \<and>
   mes_workorder Start ticks clerk 1 floor_db =
     Inr (\<lparr>work_orders =
             [1 \<mapsto> finished_order\<lparr>status := ''in_progress'', actual_start := Some 9000,
                                     wo_updated_at := 9001\<rparr>,
              2 \<mapsto> running_order],
            production_logs =
             [\<lparr>pl_work_order = 1, pl_operator = Some 7, pl_shift = None,
               pl_action_type = ''start'', pl_timestamp = 9002, pl_quantity = 0,
               pl_rejects = 0, pl_downtime_minutes = 0, pl_downtime_reason = None,
               pl_nfc_uid = None, pl_notes = None\<rparr>]\<rparr>,
          \<lparr>message_level = ''success'', message_text = ''Work Order WO-0001 started.'',
           redirect_to = 1\<rparr>)"
proof
  show "status finished_order \<noteq> ''ready''"
    by (simp add: finished_order_def)
next
  have "work_orders floor_db 1 = Some finished_order"
    by (simp add: floor_db_def)
  moreover have "request_operator clerk = Some 7"
    by (simp add: request_operator_def clerk_def)
  moreover have "[(1::pk) \<mapsto> finished_order, 2 \<mapsto> running_order](1 \<mapsto> w) =
                 [1 \<mapsto> w, 2 \<mapsto> running_order]" for w :: work_order
    by (rule ext) (simp add: fun_upd_def)
  ultimately show "mes_workorder Start ticks clerk 1 floor_db = Inr
     (\<lparr>work_orders =
         [1 \<mapsto> finished_order\<lparr>status := ''in_progress'', actual_start := Some 9000,
                                 wo_updated_at := 9001\<rparr>,
          2 \<mapsto> running_order],
        production_logs =
         [\<lparr>pl_work_order = 1, pl_operator = Some 7, pl_shift = None,
           pl_action_type = ''start'', pl_timestamp = 9002, pl_quantity = 0,
           pl_rejects = 0, pl_downtime_minutes = 0, pl_downtime_reason = None,
           pl_nfc_uid = None, pl_notes = None\<rparr>]\<rparr>,
      \<lparr>message_level = ''success'', message_text = ''Work Order WO-0001 started.'',
       redirect_to = 1\<rparr>)"
    by (simp add: transition_defs clerk_def ticks_def)
       (simp add: floor_db_def finished_order_def)
qed

text \<open>
  C1, amended: the console offers the Start link exactly for a work order whose status is
  'ready', and the Start view itself does not look at the status. Called by a staff
  session on an existing work order, whatever its status, it sets status to 'in_progress',
  sets actual_start to the time read first, writes the row (the save stamps updated_at) and
  appends exactly one ProductionLog with action 'start' for that order and the session's
  employee; no other work order and no earlier log entry changes.
\<close>

theorem start_work_order_effect:
  assumes "is_active (req_user request)" and "is_staff (req_user request)"
    and "work_orders db object_id = Some wo"
  shows "(Start \<in> set (action_buttons wo) \<longleftrightarrow> status wo = ''ready'') \<and>
    mes_workorder Start now request object_id db =
      Inr (\<lparr>work_orders = (work_orders db)(object_id \<mapsto>
               wo\<lparr>status := ''in_progress'', actual_start := Some (now 0),
                  wo_updated_at := now 1\<rparr>),
             production_logs = production_logs db @
               [\<lparr>pl_work_order = object_id, pl_operator = request_operator request,
                 pl_shift = None, pl_action_type = ''start'', pl_timestamp = now 2,
                 pl_quantity = 0, pl_rejects = 0, pl_downtime_minutes = 0,
                 pl_downtime_reason = None, pl_nfc_uid = None, pl_notes = None\<rparr>]\<rparr>,
           \<lparr>message_level = ''success'',
            message_text = ''Work Order '' @ wo_number wo @ '' started.'',
            redirect_to = object_id\<rparr>)"
proof
  show "Start \<in> set (action_buttons wo) \<longleftrightarrow> status wo = ''ready''"
    by (simp add: action_buttons_def Let_def)
next
  from assms(1,2) have "mes_workorder Start now request object_id db =
      start_work_order now request object_id db"
    by (simp add: admin_view_def)
  also from assms(3) have "\<dots> =
      Inr (\<lparr>work_orders = (work_orders db)(object_id \<mapsto>
               wo\<lparr>status := ''in_progress'', actual_start := Some (now 0),
                  wo_updated_at := now 1\<rparr>),
             production_logs = production_logs db @
               [\<lparr>pl_work_order = object_id, pl_operator = request_operator request,
                 pl_shift = None, pl_action_type = ''start'', pl_timestamp = now 2,
                 pl_quantity = 0, pl_rejects = 0, pl_downtime_minutes = 0,
                 pl_downtime_reason = None, pl_nfc_uid = None, pl_notes = None\<rparr>]\<rparr>,
           \<lparr>message_level = ''success'',
            message_text = ''Work Order '' @ wo_number wo @ '' started.'',
            redirect_to = object_id\<rparr>)"
    by (simp add: start_work_order_def WorkOrder_save_def ProductionLog_create_def Let_def)
  finally show "mes_workorder Start now request object_id db =
      Inr (\<lparr>work_orders = (work_orders db)(object_id \<mapsto>
               wo\<lparr>status := ''in_progress'', actual_start := Some (now 0),
                  wo_updated_at := now 1\<rparr>),
             production_logs = production_logs db @
               [\<lparr>pl_work_order = object_id, pl_operator = request_operator request,
                 pl_shift = None, pl_action_type = ''start'', pl_timestamp = now 2,
                 pl_quantity = 0, pl_rejects = 0, pl_downtime_minutes = 0,
                 pl_downtime_reason = None, pl_nfc_uid = None, pl_notes = None\<rparr>]\<rparr>,
           \<lparr>message_level = ''success'',
            message_text = ''Work Order '' @ wo_number wo @ '' started.'',
            redirect_to = object_id\<rparr>)" .
qed

theorem start_work_order_effect_witness:
  "is_active (req_user clerk) \<and> is_staff (req_user clerk) \<and>
   work_orders floor_db 2 = Some running_order \<and>
   Start \<notin> set (action_buttons running_order) \<and>
   (case mes_workorder Start ticks clerk 2 floor_db of
      Inl e \<Rightarrow> False
    | Inr (db', r) \<Rightarrow>
        map_option status (work_orders db' 2) = Some ''in_progress'' \<and>
        map_option actual_start (work_orders db' 2) = Some (Some 9000) \<and>
        map pl_action_type (production_logs db') = [''start''])"
proof -
  have a: "is_active (req_user clerk)" and s: "is_staff (req_user clerk)"
    by (simp_all add: clerk_def)
  have w: "work_orders floor_db 2 = Some running_order"
    by (simp add: floor_db_def)
  have r: "status running_order \<noteq> ''ready''"
    by (simp add: running_order_def)
  show ?thesis
    using a s w r start_work_order_effect [OF a s w, of ticks]
    by (simp add: floor_db_def ticks_def)
qed

text \<open>The rejections the Start route does have: no staff session, or no such work order.\<close>

lemma start_work_order_rejections:
  "\<not> (is_active (req_user request) \<and> is_staff (req_user request)) \<Longrightarrow>
     mes_workorder Start now request object_id db = Inl LoginRequired"
  "is_active (req_user request) \<Longrightarrow> is_staff (req_user request) \<Longrightarrow>
     work_orders db object_id = None \<Longrightarrow>
     mes_workorder Start now request object_id db = Inl DoesNotExist"
  by (auto simp: admin_view_def start_work_order_def)

text \<open>
  C10, as stated: Pause changes nothing of the work order but its status. The row is
  saved, and the save stamps updated_at: pausing the running order at 9000 leaves a row
  that is not the old one with the new status.
\<close>

theorem pause_stamps_updated_at_counterexample:
  "(case mes_workorder Pause ticks clerk 2 floor_db of
      Inl e \<Rightarrow> False
    | Inr (db', r) \<Rightarrow>
        work_orders db' 2 \<noteq> Some (running_order\<lparr>status := ''paused''\<rparr>) \<and>
        map_option wo_updated_at (work_orders db' 2) = Some 9000 \<and>
        wo_updated_at running_order = 1200)"
  by (simp add: transition_defs floor_defs)

text \<open>
  C10, amended: called by a staff session on an existing work order, Pause and Resume
  change only the order's status ('paused' for Pause, 'in_progress' for Resume) and its
  updated_at stamp (the time of the save), and append exactly one ProductionLog entry with
  action 'pause' and 'resume' respectively; every other column of the order, among them
  planned_quantity, produced_quantity, rejected_quantity, actual_start, actual_end,
  planned_start and planned_end, every other work order and every earlier log entry are
  unchanged.
\<close>

theorem pause_resume_effect:
  assumes "is_active (req_user request)" and "is_staff (req_user request)"
    and "work_orders db object_id = Some wo"
  shows "mes_workorder Pause now request object_id db =
      Inr (\<lparr>work_orders = (work_orders db)(object_id \<mapsto>
               wo\<lparr>status := ''paused'', wo_updated_at := now 0\<rparr>),
             production_logs = production_logs db @
               [\<lparr>pl_work_order = object_id, pl_operator = request_operator request,
                 pl_shift = None, pl_action_type = ''pause'', pl_timestamp = now 1,
                 pl_quantity = 0, pl_rejects = 0, pl_downtime_minutes = 0,
                 pl_downtime_reason = None, pl_nfc_uid = None, pl_notes = None\<rparr>]\<rparr>,
           \<lparr>message_level = ''warning'',
            message_text = ''Work Order '' @ wo_number wo @ '' paused.'',
            redirect_to = object_id\<rparr>) \<and>
    mes_workorder Resume now request object_id db =
      Inr (\<lparr>work_orders = (work_orders db)(object_id \<mapsto>
               wo\<lparr>status := ''in_progress'', wo_updated_at := now 0\<rparr>),
             production_logs = production_logs db @
               [\<lparr>pl_work_order = object_id, pl_operator = request_operator request,
                 pl_shift = None, pl_action_type = ''resume'', pl_timestamp = now 1,
                 pl_quantity = 0, pl_rejects = 0, pl_downtime_minutes = 0,
                 pl_downtime_reason = None, pl_nfc_uid = None, pl_notes = None\<rparr>]\<rparr>,
           \<lparr>message_level = ''success'',
            message_text = ''Work Order '' @ wo_number wo @ '' resumed.'',
            redirect_to = object_id\<rparr>)"
proof (rule conjI)
  from assms(1,2) have route:
    "mes_workorder Pause now request object_id db = pause_work_order now request object_id db"
    "mes_workorder Resume now request object_id db = resume_work_order now request object_id db"
    by (simp_all add: admin_view_def)
  from assms(3) show "mes_workorder Pause now request object_id db =
      Inr (\<lparr>work_orders = (work_orders db)(object_id \<mapsto>
               wo\<lparr>status := ''paused'', wo_updated_at := now 0\<rparr>),
             production_logs = production_logs db @
               [\<lparr>pl_work_order = object_id, pl_operator = request_operator request,
                 pl_shift = None, pl_action_type = ''pause'', pl_timestamp = now 1,
                 pl_quantity = 0, pl_rejects = 0, pl_downtime_minutes = 0,
                 pl_downtime_reason = None, pl_nfc_uid = None, pl_notes = None\<rparr>]\<rparr>,
           \<lparr>message_level = ''warning'',
            message_text = ''Work Order '' @ wo_number wo @ '' paused.'',
            redirect_to = object_id\<rparr>)"
    unfolding route
    by (simp add: pause_work_order_def WorkOrder_save_def ProductionLog_create_def Let_def)
  from assms(3) show "mes_workorder Resume now request object_id db =
      Inr (\<lparr>work_orders = (work_orders db)(object_id \<mapsto>
               wo\<lparr>status := ''in_progress'', wo_updated_at := now 0\<rparr>),
             production_logs = production_logs db @
               [\<lparr>pl_work_order = object_id, pl_operator = request_operator request,
                 pl_shift = None, pl_action_type = ''resume'', pl_timestamp = now 1,
                 pl_quantity = 0, pl_rejects = 0, pl_downtime_minutes = 0,
                 pl_downtime_reason = None, pl_nfc_uid = None, pl_notes = None\<rparr>]\<rparr>,
           \<lparr>message_level = ''success'',
            message_text = ''Work Order '' @ wo_number wo @ '' resumed.'',
            redirect_to = object_id\<rparr>)"
    unfolding route
    by (simp add: resume_work_order_def WorkOrder_save_def ProductionLog_create_def Let_def)
qed

theorem pause_resume_effect_witness:
  "is_active (req_user clerk) \<and> is_staff (req_user clerk) \<and>
   work_orders floor_db 2 = Some running_order \<and>
   (case mes_workorder Pause ticks clerk 2 floor_db of
      Inl e \<Rightarrow> False
    | Inr (db', r) \<Rightarrow>
        work_orders db' 2 = Some (running_order\<lparr>status := ''paused'', wo_updated_at := 9000\<rparr>) \<and>
        work_orders db' 1 = Some finished_order \<and>
        map pl_action_type (production_logs db') = [''pause'']) \<and>
   (case mes_workorder Resume ticks clerk 2 floor_db of
      Inl e \<Rightarrow> False
    | Inr (db', r) \<Rightarrow>
        work_orders db' 2 = Some (running_order\<lparr>status := ''in_progress'', wo_updated_at := 9000\<rparr>) \<and>
        map pl_action_type (production_logs db') = [''resume''])"
proof -
  have a: "is_active (req_user clerk)" and s: "is_staff (req_user clerk)"
    by (simp_all add: clerk_def)
  have w: "work_orders floor_db 2 = Some running_order"
    by (simp add: floor_db_def)
  show ?thesis
    using a s w pause_resume_effect [OF a s w, of ticks]
    by (simp add: floor_db_def ticks_def)
qed

section \<open>Properties of the OEE figure\<close>

lemma efficiency_on_time_order: "efficiency on_time_order = Some 100"
  by (simp add: efficiency_def on_time_order_def finished_order_def total_seconds_def)

lemma efficiency_unplanned_order: "efficiency unplanned_order = Some 0"
  by (simp add: efficiency_def unplanned_order_def finished_order_def total_seconds_def)

lemma completed_this_month_sample:
  "completed_this_month 0 [on_time_order, unplanned_order] = [on_time_order, unplanned_order]"
  by (simp add: completed_this_month_def on_time_order_def unplanned_order_def finished_order_def)

lemma py_round_of_int: "py_round (of_int n) k = of_int n"
proof -
  have "(of_int n :: rat) * 10 ^ k = of_int (n * 10 ^ k)"
    by simp
  then have "round_half_even (of_int n * 10 ^ k) = n * 10 ^ k"
    unfolding round_half_even_def by (simp del: of_int_mult of_int_power)
  then show ?thesis
    by (simp add: py_round_def)
qed

lemma py_round_samples: "py_round 100 k = 100" "py_round 50 k = 50" "py_round 0 k = 0"
  using py_round_of_int [of 100 k] py_round_of_int [of 50 k] py_round_of_int [of 0 k]
  by simp_all

text \<open>
  C3. The claim is the specification's figure \<open>oee_spec\<close>: the average over the completed
  orders of the month whose efficiency is defined. The code tests the efficiency for
  truth, not for \<^verbatim>\<open>None\<close>, so an order whose efficiency is defined and zero (planned end equal
  to planned start, a positive actual duration) is left out of the average. With one order
  at 100 and one at 0 the dashboard shows 100.0 where the claim says 50.0.
\<close>

theorem oee_skips_zero_efficiency:
  "efficiency on_time_order = Some 100 \<and> efficiency unplanned_order = Some 0 \<and>
   get_kpis_oee 0 [on_time_order, unplanned_order] = 100 \<and>
   oee_spec 0 [on_time_order, unplanned_order] = 50"
  by (simp add: get_kpis_oee_def oee_spec_def completed_this_month_sample
      efficiency_on_time_order efficiency_unplanned_order py_round_samples)

text \<open>Apart from that case the code computes the specification's figure.\<close>

lemma oee_loop_sums:
  "oee_loop xs a c =
     (a + sum_list (filter (\<lambda>e. e \<noteq> 0) (List.map_filter efficiency xs)),
      c + length (filter (\<lambda>e. e \<noteq> 0) (List.map_filter efficiency xs)))"
  by (induction xs arbitrary: a c) (auto split: option.splits)

lemma get_kpis_oee_is_spec:
  assumes "\<forall>wo \<in> set (completed_this_month month_start wos). efficiency wo \<noteq> Some 0"
  shows "get_kpis_oee month_start wos = oee_spec month_start wos"
proof -
  let ?es = "List.map_filter efficiency (completed_this_month month_start wos)"
  have "0 \<notin> set ?es"
    using assms by (auto simp: List.map_filter_def)
  then have nz: "filter (\<lambda>e. e \<noteq> 0) ?es = ?es"
    by (induction ?es) (auto simp: filter_id_conv)
  show ?thesis
  proof (cases "?es = []")
    case True
    then show ?thesis
      by (simp add: get_kpis_oee_def oee_spec_def oee_loop_sums nz Let_def py_round_samples)
  next
    case False
    then have "completed_this_month month_start wos \<noteq> []"
      by auto
    with False show ?thesis
      by (simp add: get_kpis_oee_def oee_spec_def oee_loop_sums nz Let_def)
  qed
qed

text \<open>An order without an actual end has no efficiency, whatever its other columns, and
  an order with an efficiency has all four instants and a positive actual duration.\<close>

lemma efficiency_needs_actual_end: "actual_end wo = None \<Longrightarrow> efficiency wo = None"
  by (simp add: efficiency_def split: option.splits)

lemma efficiency_defined_iff:
  "efficiency wo = Some e \<longleftrightarrow>
     (\<exists>a_start a_end p_start p_end.
        actual_start wo = Some a_start \<and> actual_end wo = Some a_end \<and>
        planned_start wo = Some p_start \<and> planned_end wo = Some p_end \<and>
        a_start < a_end \<and>
        e = total_seconds (p_end - p_start) / total_seconds (a_end - a_start) * 100)"
  by (auto simp: efficiency_def total_seconds_def Let_def split: option.splits)

section \<open>Properties of the audit log's console screen\<close>

lemmas logdata_console_defs =
  LogData_console_def admin_view_def LogDataAdmin_def ModelAdmin_def has_perm_def

text \<open>
  C4, as stated: no console operation can modify or delete an existing LogData row. The
  admin class refuses add and change and inherits the delete permission: the superuser's
  delete page removes the login entry from the table.
\<close>

theorem logdata_delete_counterexample:
  "login_entry \<in> set [login_entry, create_entry] \<and>
   LogData_console root (Delete_view 1) [login_entry, create_entry] = Inr ([create_entry], [])"
  by (simp add: logdata_console_defs root_def login_entry_def create_entry_def)

lemma LogData_objects_all_newest_first:
  "sorted_wrt (\<lambda>a b. ld_timestamp b \<le> ld_timestamp a) (LogData_objects_all rows)"
proof -
  have "sorted (map (\<lambda>r. - ld_timestamp r) (LogData_objects_all rows))"
    unfolding LogData_objects_all_def by (rule sorted_sort_key)
  then show ?thesis
    by (simp add: sorted_map)
qed

lemma LogData_objects_all_complete: "mset (LogData_objects_all rows) = mset rows"
  by (simp add: LogData_objects_all_def)

lemma logdata_add_refused: "isl (LogData_console request (Add_view obj) rows)"
  by (simp add: LogData_console_def admin_view_def LogDataAdmin_def)

lemma logdata_change_refused: "isl (LogData_console request (Change_view key obj) rows)"
  by (simp add: LogData_console_def admin_view_def LogDataAdmin_def)

lemma logdata_console_survivors:
  assumes "LogData_console request op rows = Inr (rows', shown)"
  shows "rows' = filter (\<lambda>r. r \<in> set rows') rows \<and>
         sorted_wrt (\<lambda>a b. ld_timestamp b \<le> ld_timestamp a) shown \<and>
         (op = Changelist_view \<longrightarrow> rows' = rows \<and> mset shown = mset rows)"
proof (cases op)
  case (Add_view obj)
  with assms logdata_add_refused [of request obj rows] show ?thesis by simp
next
  case (Change_view key obj)
  with assms logdata_change_refused [of request key obj rows] show ?thesis by simp
next
  case (Delete_view key)
  with assms have "rows' = filter (\<lambda>r. ld_id r \<noteq> key) rows" and "shown = []"
    by (auto simp: LogData_console_def admin_view_def split: if_splits)
  with Delete_view show ?thesis
    by (auto intro!: filter_cong)
next
  case Changelist_view
  with assms have "rows' = rows" and "shown = LogData_objects_all rows"
    by (auto simp: LogData_console_def admin_view_def split: if_splits)
  with Changelist_view show ?thesis
    by (simp add: LogData_objects_all_newest_first LogData_objects_all_complete)
qed

lemma logdata_delete_allowed:
  assumes "is_active (req_user request)" and "is_staff (req_user request)"
    and "has_perm (req_user request) ''core.delete_logdata''"
    and "key \<in> set (map ld_id rows)"
  shows "LogData_console request (Delete_view key) rows =
           Inr (filter (\<lambda>r. ld_id r \<noteq> key) rows, [])"
  using assms
  by (simp add: LogData_console_def admin_view_def LogDataAdmin_def ModelAdmin_def)

text \<open>
  C4, amended: on the LogData console screen, add and change are refused for every
  account, so no row is created or edited there; whatever an operation of the screen does,
  the rows left in the table are rows that were there, unchanged and in their order (the
  table can only lose rows), and the rows displayed are in newest-first order; the list
  page leaves the table as it is and shows all of it. Deleting is not refused: an active
  staff account holding the delete permission removes an existing row.
\<close>

theorem logdata_console_effects:
  "isl (LogData_console request (Add_view obj) rows) \<and>
   isl (LogData_console request (Change_view key obj) rows) \<and>
   (LogData_console request op rows = Inr (rows', shown) \<longrightarrow>
      rows' = filter (\<lambda>r. r \<in> set rows') rows \<and>
      sorted_wrt (\<lambda>a b. ld_timestamp b \<le> ld_timestamp a) shown \<and>
      (op = Changelist_view \<longrightarrow> rows' = rows \<and> mset shown = mset rows)) \<and>
   (is_active (req_user request) \<and> is_staff (req_user request) \<and>
    has_perm (req_user request) ''core.delete_logdata'' \<and> key \<in> set (map ld_id rows) \<longrightarrow>
      LogData_console request (Delete_view key) rows =
        Inr (filter (\<lambda>r. ld_id r \<noteq> key) rows, []))"
  using logdata_add_refused logdata_change_refused logdata_console_survivors
    logdata_delete_allowed
  by blast

theorem logdata_console_effects_witness:
  "LogData_console root Changelist_view [login_entry, create_entry] =
     Inr ([login_entry, create_entry], [create_entry, login_entry]) \<and>
   sorted_wrt (\<lambda>a b. ld_timestamp b \<le> ld_timestamp a) [create_entry, login_entry] \<and>
   has_perm (req_user root) ''core.delete_logdata'' \<and>
   LogData_console root (Delete_view 2) [login_entry, create_entry] = Inr ([login_entry], []) \<and>
   LogData_console root (Add_view create_entry) [login_entry] = Inl PermissionDenied \<and>
   LogData_console root (Change_view 1 create_entry) [login_entry] = Inl PermissionDenied"
proof -
  have list: "LogData_console root Changelist_view [login_entry, create_entry] =
      Inr ([login_entry, create_entry], [create_entry, login_entry])"
    by (simp add: logdata_console_defs LogData_objects_all_def root_def login_entry_def
        create_entry_def)
  have perm: "is_active (req_user root) \<and> is_staff (req_user root) \<and>
      has_perm (req_user root) ''core.delete_logdata'' \<and>
      2 \<in> set (map ld_id [login_entry, create_entry])"
    by (simp add: has_perm_def root_def login_entry_def create_entry_def)
  have refused:
    "LogData_console root (Add_view create_entry) [login_entry] = Inl PermissionDenied"
    "LogData_console root (Change_view 1 create_entry) [login_entry] = Inl PermissionDenied"
    by (simp_all add: logdata_console_defs root_def)
  from list perm refused
    logdata_console_effects [of root create_entry "[login_entry, create_entry]" 2
      Changelist_view "[login_entry, create_entry]" "[create_entry, login_entry]"]
  show ?thesis
    by (simp add: login_entry_def create_entry_def)
qed

section \<open>Properties of the automatic logging\<close>

lemmas registry_defs =
  connections_when_ready_def register_model_signals_def models_to_track_def
  create_generic_log_signal_def connect_def collect_def Let_def

text \<open>The connections when the closures are held: all twenty-six receivers alive.\<close>

lemma connections_held:
  "connections_when_ready True =
    [(Post_save, Employee, Some Log_employee_save),
     (Post_save, UserProfile, Some Log_profile_save),
     (Post_save, Product, Some (Log_model_save ''Product'')),
     (Post_delete, Product, Some (Log_model_delete ''Product'')),
     (Post_save, PurchaseOrder, Some (Log_model_save ''PurchaseOrder'')),
     (Post_delete, PurchaseOrder, Some (Log_model_delete ''PurchaseOrder'')),
     (Post_save, SalesOrder, Some (Log_model_save ''SalesOrder'')),
     (Post_delete, SalesOrder, Some (Log_model_delete ''SalesOrder'')),
     (Post_save, Invoice, Some (Log_model_save ''Invoice'')),
     (Post_delete, Invoice, Some (Log_model_delete ''Invoice'')),
     (Post_save, WorkOrder, Some (Log_model_save ''WorkOrder'')),
     (Post_delete, WorkOrder, Some (Log_model_delete ''WorkOrder'')),
     (Post_save, ProductionLog, Some (Log_model_save ''ProductionLog'')),
     (Post_delete, ProductionLog, Some (Log_model_delete ''ProductionLog'')),
     (Post_save, QualityCheck, Some (Log_model_save ''QualityCheck'')),
     (Post_delete, QualityCheck, Some (Log_model_delete ''QualityCheck'')),
     (Post_save, Material, Some (Log_model_save ''Material'')),
     (Post_delete, Material, Some (Log_model_delete ''Material'')),
     (Post_save, BOM, Some (Log_model_save ''BOM'')),
     (Post_delete, BOM, Some (Log_model_delete ''BOM'')),
     (Post_save, Inventory, Some (Log_model_save ''Inventory'')),
     (Post_delete, Inventory, Some (Log_model_delete ''Inventory'')),
     (Post_save, StockMovement, Some (Log_model_save ''StockMovement'')),
     (Post_delete, StockMovement, Some (Log_model_delete ''StockMovement'')),
     (Post_save, PurchaseRequest, Some (Log_model_save ''PurchaseRequest'')),
     (Post_delete, PurchaseRequest, Some (Log_model_delete ''PurchaseRequest''))]"
  by (simp add: registry_defs)

text \<open>The connections when nothing holds the closures: only the module's own two receivers
  are alive.\<close>

lemma connections_not_held:
  "connections_when_ready False =
    [(Post_save, Employee, Some Log_employee_save),
     (Post_save, UserProfile, Some Log_profile_save),
     (Post_save, Product, None),
     (Post_delete, Product, None),
     (Post_save, PurchaseOrder, None),
     (Post_delete, PurchaseOrder, None),
     (Post_save, SalesOrder, None),
     (Post_delete, SalesOrder, None),
     (Post_save, Invoice, None),
     (Post_delete, Invoice, None),
     (Post_save, WorkOrder, None),
     (Post_delete, WorkOrder, None),
     (Post_save, ProductionLog, None),
     (Post_delete, ProductionLog, None),
     (Post_save, QualityCheck, None),
     (Post_delete, QualityCheck, None),
     (Post_save, Material, None),
     (Post_delete, Material, None),
     (Post_save, BOM, None),
     (Post_delete, BOM, None),
     (Post_save, Inventory, None),
     (Post_delete, Inventory, None),
     (Post_save, StockMovement, None),
     (Post_delete, StockMovement, None),
     (Post_save, PurchaseRequest, None),
     (Post_delete, PurchaseRequest, None)]"
  by (simp add: registry_defs)

text \<open>With the closures held.\<close>

lemma send_product_save:
  "send (connections_when_ready True) Post_save Product t req obj created logs =
     log_model_save ''Product'' t req obj created logs"
  by (simp add: connections_held)

lemma send_product_delete:
  "send (connections_when_ready True) Post_delete Product t req obj created logs =
     log_model_delete ''Product'' t req obj logs"
  by (simp add: connections_held)

lemma send_cascaded:
  "send (connections_when_ready True) Post_delete BOM t req obj created logs =
     log_model_delete ''BOM'' t req obj logs"
  "send (connections_when_ready True) Post_delete Inventory t req obj created logs =
     log_model_delete ''Inventory'' t req obj logs"
  "send (connections_when_ready True) Post_delete ReorderRule t req obj created logs = logs"
  "send (connections_when_ready True) Post_delete BOMLine t req obj created logs = logs"
  "send (connections_when_ready True) Post_delete PurchaseOrderLine t req obj created logs = logs"
  "send (connections_when_ready True) Post_save PurchaseOrderLine t req obj created logs = logs"
  by (simp_all add: connections_held)

lemma cascade_reach_Product: "cascade_reach Product = [BOM, Inventory, ReorderRule, BOMLine]"
  by (simp add: cascade_reach_def)

lemma cascade_reach_PurchaseOrderLine: "cascade_reach PurchaseOrderLine = []"
  by (simp add: cascade_reach_def)

text \<open>Three levels exhaust the cascade: no model is reached at a fourth.\<close>

lemma cascade_reach_closed: "concat (map cascade_children (concat (map cascade_children (concat (map cascade_children (cascade_children m)))))) = []"
  by (cases m) simp_all


lemma create_log_appends:
  "\<exists>e. create_log t req action description user employee model_name object_id nfc logs = logs @ [e] \<and>
       ld_action_type e = action \<and> ld_model_name e = model_name \<and> ld_object_id e = object_id \<and>
       ld_description e = description \<and> ld_timestamp e = t"
  by (simp add: create_log_def Let_def)

lemma log_model_save_appends:
  "\<exists>e. log_model_save model_name t req obj created logs = logs @ [e] \<and>
       ld_action_type e = (if created then ''create'' else ''update'') \<and>
       ld_model_name e = Some model_name \<and> ld_object_id e = Some (obj_id obj)"
  using create_log_appends
    [of t req "if created then ''create'' else ''update''" _ None None "Some model_name"
       "Some (obj_id obj)" None logs]
  unfolding log_model_save_def Let_def by blast

lemma log_model_delete_appends:
  "\<exists>e. log_model_delete model_name t req obj logs = logs @ [e] \<and>
       ld_action_type e = ''delete'' \<and>
       ld_model_name e = Some model_name \<and> ld_object_id e = Some (obj_id obj)"
  using create_log_appends
    [of t req "''delete''" _ None None "Some model_name" "Some (obj_id obj)" None logs]
  unfolding log_model_delete_def Let_def by blast

lemma delete_loop_append:
  "delete_loop cn (xs @ ys) t req logs = delete_loop cn ys t req (delete_loop cn xs t req logs)"
  by (induction xs arbitrary: logs) auto

lemma delete_loop_cascaded:
  assumes "\<forall>(m, obj) \<in> set cascaded. m \<in> set (cascade_reach Product)"
  shows "\<exists>es. delete_loop (connections_when_ready True) cascaded t req logs = logs @ es \<and>
              (\<forall>e \<in> set es. ld_model_name e \<noteq> Some ''Product'')"
  using assms
proof (induction cascaded arbitrary: logs)
  case Nil
  then show ?case by simp
next
  case (Cons x rest)
  obtain m obj where x: "x = (m, obj)"
    by (cases x)
  with Cons.prems have m: "m = BOM \<or> m = Inventory \<or> m = ReorderRule \<or> m = BOMLine"
    by (auto simp: cascade_reach_Product)
  have step: "\<exists>es. send (connections_when_ready True) Post_delete m t req obj False logs = logs @ es \<and>
                   (\<forall>e \<in> set es. ld_model_name e \<noteq> Some ''Product'')"
  proof -
    consider "m = BOM" | "m = Inventory" | "m = ReorderRule \<or> m = BOMLine"
      using m by blast
    then show ?thesis
    proof cases
      case 1
      with log_model_delete_appends [of "''BOM''" t req obj logs] show ?thesis
        by (auto simp: send_cascaded)
    next
      case 2
      with log_model_delete_appends [of "''Inventory''" t req obj logs] show ?thesis
        by (auto simp: send_cascaded)
    next
      case 3
      then show ?thesis
        by (auto simp: send_cascaded)
    qed
  qed
  then obtain es where es:
    "send (connections_when_ready True) Post_delete m t req obj False logs = logs @ es"
    "\<forall>e \<in> set es. ld_model_name e \<noteq> Some ''Product''"
    by blast
  from Cons.prems have "\<forall>(m, obj) \<in> set rest. m \<in> set (cascade_reach Product)"
    by simp
  from Cons.IH [OF this, of "logs @ es"] obtain es' where es':
    "delete_loop (connections_when_ready True) rest t req (logs @ es) = (logs @ es) @ es'"
    "\<forall>e \<in> set es'. ld_model_name e \<noteq> Some ''Product''"
    by blast
  from x es es' show ?case
    by (intro exI [of _ "es @ es'"]) auto
qed

text \<open>
  What the receivers do when they are alive. With the closures held, saving a Product
  through \<^verbatim>\<open>save()\<close> adds exactly one entry with model name "Product" and action 'create' or
  'update', and deleting one adds exactly one with action 'delete', after the entries that
  were there (rows that the deletion takes along are logged under their own model names).
\<close>

lemma held_receivers_log_once:
  assumes "\<forall>(m, obj) \<in> set cascaded. m \<in> set (cascade_reach Product)"
  shows
    "take (length logs) (Model_save (connections_when_ready True) Product True t req p logs) = logs \<and>
     map entry_summary (new_entries logs (Model_save (connections_when_ready True) Product True t req p logs)) =
       [(''create'', Some ''Product'', Some (obj_id p))] \<and>
     take (length logs) (Model_save (connections_when_ready True) Product False t req p logs) = logs \<and>
     map entry_summary (new_entries logs (Model_save (connections_when_ready True) Product False t req p logs)) =
       [(''update'', Some ''Product'', Some (obj_id p))] \<and>
     take (length logs) (Model_delete (connections_when_ready True) Product cascaded t req p logs) = logs \<and>
     map entry_summary (filter (\<lambda>e. ld_model_name e = Some ''Product'')
        (new_entries logs (Model_delete (connections_when_ready True) Product cascaded t req p logs))) =
       [(''delete'', Some ''Product'', Some (obj_id p))] \<and>
     map entry_summary (new_entries logs (Model_delete (connections_when_ready True) Product [] t req p logs)) =
       [(''delete'', Some ''Product'', Some (obj_id p))]"
proof -
  have save: "take (length logs) (Model_save (connections_when_ready True) Product c t req p logs) = logs \<and>
      map entry_summary (new_entries logs (Model_save (connections_when_ready True) Product c t req p logs)) =
        [(if c then ''create'' else ''update'', Some ''Product'', Some (obj_id p))]" for c
    using log_model_save_appends [of "''Product''" t req p c logs]
    by (auto simp: Model_save_def send_product_save new_entries_def entry_summary_def)
  have del: "take (length logs) (Model_delete (connections_when_ready True) Product cs t req p logs) = logs \<and>
      map entry_summary (filter (\<lambda>e. ld_model_name e = Some ''Product'')
        (new_entries logs (Model_delete (connections_when_ready True) Product cs t req p logs))) =
        [(''delete'', Some ''Product'', Some (obj_id p))] \<and>
      (cs = [] \<longrightarrow> map entry_summary (new_entries logs (Model_delete (connections_when_ready True) Product cs t req p logs)) =
        [(''delete'', Some ''Product'', Some (obj_id p))])"
    if "\<forall>(m, obj) \<in> set cs. m \<in> set (cascade_reach Product)" for cs
  proof -
    from delete_loop_cascaded [OF that, of t req logs] obtain es where es:
      "delete_loop (connections_when_ready True) cs t req logs = logs @ es"
      "\<forall>e \<in> set es. ld_model_name e \<noteq> Some ''Product''"
      by blast
    from log_model_delete_appends [of "''Product''" t req p "logs @ es"] obtain e where e:
      "log_model_delete ''Product'' t req p (logs @ es) = (logs @ es) @ [e]"
      "ld_action_type e = ''delete''" "ld_model_name e = Some ''Product''"
      "ld_object_id e = Some (obj_id p)"
      by blast
    have all: "Model_delete (connections_when_ready True) Product cs t req p logs = logs @ es @ [e]"
      by (simp add: Model_delete_def delete_loop_append es(1) send_product_delete e(1))
    have none: "filter (\<lambda>e. ld_model_name e = Some ''Product'') es = []"
      using es(2) by (simp add: filter_empty_conv)
    have new: "new_entries logs (Model_delete (connections_when_ready True) Product cs t req p logs) = es @ [e]"
      by (simp add: all new_entries_def)
    have alone: "es = []" if "cs = []"
      using es(1) that by simp
    from e(2-4) have "entry_summary e = (''delete'', Some ''Product'', Some (obj_id p))"
      by (simp add: entry_summary_def)
    with none alone e(3) show ?thesis
      unfolding new by (auto simp: all)
  qed
  from save [of True] save [of False] del [OF assms] del [of "[]"]
  show ?thesis
    by simp
qed

text \<open>With the closures not held, and on the bulk path.\<close>

lemma send_not_held:
  assumes "sender \<noteq> Employee" and "sender \<noteq> UserProfile"
  shows "send (connections_when_ready False) sig sender t req obj created logs = logs"
  using assms by (simp add: connections_not_held)

lemma delete_loop_not_held:
  assumes "\<forall>(m, obj) \<in> set rows. m \<noteq> Employee \<and> m \<noteq> UserProfile"
  shows "delete_loop (connections_when_ready False) rows t req logs = logs"
  using assms
proof (induction rows)
  case Nil
  then show ?case by simp
next
  case (Cons row rows)
  obtain m obj where row: "row = (m, obj)"
    by (cases row)
  with Cons.prems have "m \<noteq> Employee" and "m \<noteq> UserProfile"
    by simp_all
  then have "send (connections_when_ready False) Post_delete m t req obj False logs = logs"
    by (rule send_not_held)
  with Cons row show ?case
    by simp
qed

lemma bulk_update_leaves_log:
  "audit_log (fst (activate_products request queryset store)) = audit_log store"
  "audit_log (fst (deactivate_products request queryset store)) = audit_log store"
  by (simp_all add: activate_products_def deactivate_products_def queryset_update_active_def)

lemma bulk_update_sets_active:
  assumes "key \<in> set queryset" and "products store key = Some p"
  shows "products (fst (activate_products request queryset store)) key = Some (p\<lparr>active := True\<rparr>)"
    and "products (fst (deactivate_products request queryset store)) key = Some (p\<lparr>active := False\<rparr>)"
  using assms
  by (simp_all add: activate_products_def deactivate_products_def queryset_update_active_def)

text \<open>A PurchaseOrderLine is not tracked and no model cascades from it: deleting one on its
  own adds no entry, whether the closures are held or not.\<close>

lemma purchase_order_line_delete_not_logged:
  "cascade_reach PurchaseOrderLine = [] \<and>
   Model_delete (connections_when_ready closures_held) PurchaseOrderLine [] t req l logs = logs"
proof (cases closures_held)
  case True
  then show ?thesis
    by (simp add: Model_delete_def send_cascaded cascade_reach_PurchaseOrderLine)
next
  case False
  then show ?thesis
    by (simp add: Model_delete_def send_not_held cascade_reach_PurchaseOrderLine)
qed

text \<open>
  C6. The claim: creating, updating and deleting a Product each add exactly one LogData
  entry with model name "Product" and the matching action. The module sets out to do
  that ("automatic logging for all system operations"), and its receivers do it when they
  run. On two paths they do not run. First, the receivers of the tracked models are local
  functions held by weak reference only: where nothing else holds them they are collected
  as soon as they are connected, and a Product created, updated or deleted through
  \<^verbatim>\<open>save()\<close> and \<^verbatim>\<open>delete()\<close> leaves no entry. Second, the console's bulk actions update
  Products with \<^verbatim>\<open>queryset.update\<close>, which sends no signal: the product changes and the log
  does not, whether the receivers are alive or not. At these inputs the code writes no
  entry where the claim counts one.
\<close>

theorem product_changes_not_logged:
  "Model_save (connections_when_ready False) Product True 300 (Some root) widget_row
     [login_entry] = [login_entry] \<and>
   Model_save (connections_when_ready False) Product False 300 (Some root) widget_row
     [login_entry] = [login_entry] \<and>
   Model_delete (connections_when_ready False) Product [] 300 (Some root) widget_row
     [login_entry] = [login_entry] \<and>
   map_option active (products widget_shop 1) = Some True \<and>
   map_option active (products (fst (deactivate_products root [1] widget_shop)) 1) = Some False \<and>
   snd (deactivate_products root [1] widget_shop) = 1 \<and>
   audit_log (fst (deactivate_products root [1] widget_shop)) = audit_log widget_shop"
proof -
  have saved: "Model_save (connections_when_ready False) Product created 300 (Some root)
      widget_row [login_entry] = [login_entry]" for created
    by (simp add: Model_save_def connections_not_held)
  have deleted: "Model_delete (connections_when_ready False) Product [] 300 (Some root)
      widget_row [login_entry] = [login_entry]"
    by (simp add: Model_delete_def connections_not_held)
  have before: "map_option active (products widget_shop 1) = Some True"
    by (simp add: widget_shop_def widget_def)
  have after: "map_option active (products (fst (deactivate_products root [1] widget_shop)) 1) =
      Some False"
    by (simp add: deactivate_products_def queryset_update_active_def widget_shop_def)
  have matched: "snd (deactivate_products root [1] widget_shop) = 1"
    by (simp add: deactivate_products_def queryset_update_active_def widget_shop_def)
  have log: "audit_log (fst (deactivate_products root [1] widget_shop)) = audit_log widget_shop"
    by (simp add: deactivate_products_def queryset_update_active_def)
  from saved [of True] saved [of False] deleted before after matched log show ?thesis
    by simp
qed

end
